theory Spec2Isabelle
  imports Complex_Main "HOL-Library.Option_ord"
begin

section \<open>The relational store\<close>

text \<open>
  The service keeps everything in one SQLite file. Each table is a list of rows in
  insertion order; a nullable column is an \<open>option\<close>. Columns that SQLite fills in and
  that no statement of the service reads (the autoincrement \<open>id\<close> and \<open>created_at\<close>
  of \<open>api_keys\<close>) are left out. The \<open>api_keys\<close> rows carry the eight columns that
  the INSERT statements of \<open>main.py\<close> name, \<open>email_sent\<close> and \<open>email_sent_at\<close> included.

  A timestamp column holds the text \<open>YYYY-MM-DD HH:MM:SS\<close>; SQLite's \<open>date(...)\<close>
  returns its first part, so a timestamp is kept as the pair of both parts.
\<close>

record timestamp =
  ts_date :: string
  ts_time :: string

record api_key_row =
  api_key :: string
  tier :: string
  customer_email :: "string option"
  daily_limit :: "int option"
  monthly_limit :: "int option"
  subscription_status :: string
  email_sent :: "int option"
  email_sent_at :: "timestamp option"

record usage_row =
  ul_api_key :: string
  endpoint :: string
  response_time_ms :: int
  status_code :: int
  created_at :: timestamp

record revenue_stream_row =
  stream_id :: int
  name :: string
  category :: string
  monthly_revenue :: "real option"
  potential_monthly :: real
  growth_rate :: "real option"
  stream_notes :: "string option"
  rs_created_at :: timestamp
  updated_at :: timestamp

record subscription_row =
  sub_customer_email :: "string option"
  sub_price_id :: "string option"
  stripe_session_id :: "string option"
  sub_status :: string

record market_row =
  market_id :: string
  question :: "string option"
  pm_category :: "string option"
  volume24h :: "real option"
  active :: "int option"
  outcomes :: "string option"
  raw_data :: "string option"
  pm_updated_at :: timestamp

record payment_row =
  payment_intent_id :: string
  amount_pence :: int
  currency :: string
  pay_status :: string
  pay_updated_at :: timestamp

record db =
  api_keys :: "api_key_row list"
  api_usage_log :: "usage_row list"
  revenue_streams :: "revenue_stream_row list"
  dashboard_subscriptions :: "subscription_row list"
  polymarket_markets :: "market_row list"
  payments :: "payment_row list"

text \<open>
  What the host tells a request about the time: \<open>CURRENT_TIMESTAMP\<close> is SQLite's
  clock, which is UTC; \<open>strftime_Ymd\<close> is Python's \<open>time.strftime("%Y-%m-%d")\<close>, which
  formats \<open>localtime()\<close>, the time of the host's zone; \<open>time_time\<close> is
  \<open>time.time()\<close>, seconds since the epoch.
\<close>

record clock =
  CURRENT_TIMESTAMP :: timestamp
  strftime_Ymd :: string
  time_time :: real

text \<open>
  Exceptions are values. An \<open>HTTPException\<close> carries its status code and detail;
  \<open>IntegrityError\<close> is sqlite3's constraint violation and \<open>TypeError\<close> Python's.
  The framework answers an \<open>HTTPException\<close> with its own status code and any other
  exception that leaves a handler with status 500.
\<close>

datatype exn = HTTPException int string | IntegrityError | TypeError

fun http_status :: "exn + 'a \<Rightarrow> int" where
  "http_status (Inl (HTTPException code detail)) = code"
| "http_status (Inl IntegrityError) = 500"
| "http_status (Inl TypeError) = 500"
| "http_status (Inr r) = 200"

section \<open>The authorization gate\<close>

record key_info =
  ki_tier :: string
  ki_name :: "string option"
  ki_daily_limit :: "int option"

text \<open>
  \<open>get_key_info\<close>: the first row with this token and status \<open>active\<close>, as
  \<open>fetchone()\<close> returns it, or \<open>None\<close>.
\<close>

definition get_key_info :: "db \<Rightarrow> string \<Rightarrow> key_info option" where
  "get_key_info d k =
     (case find (\<lambda>r. api_key r = k \<and> subscription_status r = ''active'') (api_keys d) of
        None \<Rightarrow> None
      | Some row \<Rightarrow>
          Some \<lparr>ki_tier = tier row, ki_name = customer_email row,
                ki_daily_limit = daily_limit row\<rparr>)"

text \<open>
  \<open>check_rate_limit\<close>: \<open>today\<close> is the host's local date; the rows counted are those
  of the token whose \<open>date(created_at)\<close> is that text. Comparing the count with a
  limit that is NULL in the store raises \<open>TypeError\<close>.
\<close>

definition usage_count :: "db \<Rightarrow> string \<Rightarrow> string \<Rightarrow> int" where
  "usage_count d k today =
     int (length (filter (\<lambda>u. ul_api_key u = k \<and> ts_date (created_at u) = today)
                         (api_usage_log d)))"

definition check_rate_limit :: "db \<Rightarrow> clock \<Rightarrow> string \<Rightarrow> int option \<Rightarrow> exn + bool" where
  "check_rate_limit d clk k limit =
     (let today = strftime_Ymd clk;
          count = usage_count d k today
      in case limit of
           None \<Rightarrow> Inl TypeError
         | Some l \<Rightarrow> Inr (count < l))"

definition get_auth :: "db \<Rightarrow> clock \<Rightarrow> string option \<Rightarrow> exn + key_info" where
  "get_auth d clk x_api_key =
     (case x_api_key of
        None \<Rightarrow> Inl (HTTPException 401 ''Missing X-API-Key header'')
      | Some k \<Rightarrow>
          if k = [] then Inl (HTTPException 401 ''Missing X-API-Key header'')
          else
            (case get_key_info d k of
               None \<Rightarrow> Inl (HTTPException 403 ''Invalid API key'')
             | Some info \<Rightarrow>
                 (case check_rate_limit d clk k (ki_daily_limit info) of
                    Inl e \<Rightarrow> Inl e
                  | Inr ok \<Rightarrow>
                      if \<not> ok then Inl (HTTPException 429 ''Rate limit exceeded'')
                      else Inr info)))"

text \<open>
  The usage middleware \<open>log_api_usage\<close>: after a request that carried a non-empty
  \<open>X-API-Key\<close> header has been answered, one row is appended to the ledger, stamped by
  SQLite with \<open>CURRENT_TIMESTAMP\<close>.
\<close>

definition log_api_usage :: "clock \<Rightarrow> string option \<Rightarrow> string \<Rightarrow> int \<Rightarrow> int \<Rightarrow> db \<Rightarrow> db" where
  "log_api_usage clk x_api_key path duration_ms code d =
     (case x_api_key of
        None \<Rightarrow> d
      | Some k \<Rightarrow>
          if k = [] then d
          else d\<lparr>api_usage_log := api_usage_log d @
                 [\<lparr>ul_api_key = k, endpoint = path, response_time_ms = duration_ms,
                   status_code = code, created_at = CURRENT_TIMESTAMP clk\<rparr>]\<rparr>)"

section \<open>Self-registration\<close>

subsection \<open>The email pattern\<close>

text \<open>
  \<open>EMAIL_RE\<close> is the pattern \<^verbatim>\<open>^[a-zA-Z0-9._%+-]+@[a-zA-Z0-9.-]+\.[a-zA-Z]{2,}$\<close>.
  A pattern is a regular expression over character classes, a class being a list of
  inclusive ranges; it is matched with derivatives. Python's \<open>re.match\<close> anchors the
  match at the start of the text, and \<open>$\<close> holds at the end of the text and also just
  before a line feed that ends it.
\<close>

datatype rexp =
  Zero
  | One
  | Cls "(char \<times> char) list"
  | Alt rexp rexp
  | Times rexp rexp
  | Star rexp

definition in_cls :: "char \<Rightarrow> (char \<times> char) list \<Rightarrow> bool" where
  "in_cls c rs =
     list_ex (\<lambda>(lo, hi). (of_char lo :: nat) \<le> of_char c \<and> (of_char c :: nat) \<le> of_char hi) rs"

fun nullable :: "rexp \<Rightarrow> bool" where
  "nullable Zero = False"
| "nullable One = True"
| "nullable (Cls rs) = False"
| "nullable (Alt r s) = (nullable r \<or> nullable s)"
| "nullable (Times r s) = (nullable r \<and> nullable s)"
| "nullable (Star r) = True"

fun deriv :: "char \<Rightarrow> rexp \<Rightarrow> rexp" where
  "deriv c Zero = Zero"
| "deriv c One = Zero"
| "deriv c (Cls rs) = (if in_cls c rs then One else Zero)"
| "deriv c (Alt r s) = Alt (deriv c r) (deriv c s)"
| "deriv c (Times r s) =
     (if nullable r then Alt (Times (deriv c r) s) (deriv c s) else Times (deriv c r) s)"
| "deriv c (Star r) = Times (deriv c r) (Star r)"

fun fullmatch :: "rexp \<Rightarrow> string \<Rightarrow> bool" where
  "fullmatch r [] = nullable r"
| "fullmatch r (c # cs) = fullmatch (deriv c r) cs"

definition Plus :: "rexp \<Rightarrow> rexp" where
  "Plus r = Times r (Star r)"

definition AtLeast2 :: "rexp \<Rightarrow> rexp" where
  "AtLeast2 r = Times r (Times r (Star r))"

definition Lit :: "char \<Rightarrow> rexp" where
  "Lit c = Cls [(c, c)]"

definition alnum :: "(char \<times> char) list" where
  "alnum = [(CHR ''a'', CHR ''z''), (CHR ''A'', CHR ''Z''), (CHR ''0'', CHR ''9'')]"

definition EMAIL_RE :: rexp where
  "EMAIL_RE =
     Times (Plus (Cls (alnum @ [(CHR ''.'', CHR ''.''), (CHR ''_'', CHR ''_''),
                               (CHR ''%'', CHR ''%''), (CHR ''+'', CHR ''+''),
                               (CHR ''-'', CHR ''-'')])))
    (Times (Lit (CHR ''@''))
    (Times (Plus (Cls (alnum @ [(CHR ''.'', CHR ''.''), (CHR ''-'', CHR ''-'')])))
    (Times (Lit (CHR ''.''))
           (AtLeast2 (Cls [(CHR ''a'', CHR ''z''), (CHR ''A'', CHR ''Z'')])))))"

definition re_match :: "rexp \<Rightarrow> string \<Rightarrow> bool" where
  "re_match r s =
     (fullmatch r s \<or> (s \<noteq> [] \<and> last s = CHR 0x0A \<and> fullmatch r (butlast s)))"

subsection \<open>The per-address window\<close>

text \<open>
  \<open>_registration_attempts\<close> is a dictionary from the source address to the times of
  its registrations; it lives in the memory of the process.
\<close>

type_synonym attempts = "string \<rightharpoonup> real list"

definition MAX_REGISTRATIONS_PER_IP :: nat where
  "MAX_REGISTRATIONS_PER_IP = 3"

definition REGISTRATION_WINDOW_SECONDS :: real where
  "REGISTRATION_WINDOW_SECONDS = 3600"

definition recent :: "clock \<Rightarrow> attempts \<Rightarrow> string \<Rightarrow> real list" where
  "recent clk att ip =
     filter (\<lambda>t. time_time clk - t < REGISTRATION_WINDOW_SECONDS)
       (case att ip of None \<Rightarrow> [] | Some ts \<Rightarrow> ts)"

definition check_registration_rate :: "clock \<Rightarrow> attempts \<Rightarrow> string \<Rightarrow> bool \<times> attempts" where
  "check_registration_rate clk att ip =
     (let now = time_time clk;
          kept = recent clk att ip
      in if MAX_REGISTRATIONS_PER_IP \<le> length kept then (False, att(ip \<mapsto> kept))
         else (True, att(ip \<mapsto> kept @ [now])))"

subsection \<open>The registration endpoint\<close>

text \<open>
  The framework has validated the body of the request before the handler runs, so the
  email is a text (of 5 to 255 characters); the handler's own checks start with the
  pattern. What a handler does to the store is recorded beside its result: the statements it
  executed on its connection, in order. \<open>secrets.token_urlsafe(32)\<close> is an input of
  the handler, \<open>token\<close>. An insert into \<open>api_keys\<close> violates the table's only
  constraint that these inserts can violate, the uniqueness of \<open>api_key\<close>, exactly when a
  row with the token exists; a statement that raises leaves the table as it was.
\<close>

datatype store_op =
  Connect
  | SelectActiveKeyByEmail string
  | InsertApiKey api_key_row
  | Commit

definition insert_api_key :: "db \<Rightarrow> api_key_row \<Rightarrow> exn + db" where
  "insert_api_key d row =
     (if api_key row \<in> set (map api_key (api_keys d)) then Inl IntegrityError
      else Inr (d\<lparr>api_keys := api_keys d @ [row]\<rparr>))"

definition new_key_row :: "string \<Rightarrow> string \<Rightarrow> string option \<Rightarrow> int \<Rightarrow> int \<Rightarrow> api_key_row" where
  "new_key_row k t e dl ml =
     \<lparr>api_key = k, tier = t, customer_email = e, daily_limit = Some dl,
      monthly_limit = Some ml, subscription_status = ''active'',
      email_sent = Some 0, email_sent_at = None\<rparr>"

record register_response =
  resp_api_key :: string
  resp_tier :: string
  resp_daily_limit :: int
  resp_message :: string

record register_outcome =
  reg_result :: "exn + register_response"
  reg_db :: db
  reg_attempts :: attempts
  reg_trace :: "store_op list"

definition client_ip :: "string option \<Rightarrow> string" where
  "client_ip client_host = (case client_host of None \<Rightarrow> ''unknown'' | Some h \<Rightarrow> h)"

definition register ::
  "clock \<Rightarrow> string \<Rightarrow> attempts \<Rightarrow> db \<Rightarrow> string \<Rightarrow> string option \<Rightarrow> register_outcome" where
  "register clk token att d email client_host =
     (if \<not> re_match EMAIL_RE email then
        \<lparr>reg_result = Inl (HTTPException 400 ''Invalid email format''),
         reg_db = d, reg_attempts = att, reg_trace = []\<rparr>
      else
        let ip = client_ip client_host;
            (allowed, att') = check_registration_rate clk att ip
        in if \<not> allowed then
             \<lparr>reg_result = Inl (HTTPException 429 ''Too many registrations. Try again later.''),
              reg_db = d, reg_attempts = att', reg_trace = []\<rparr>
           else
             let tier = ''free'';
                 daily_limit = 100;
                 monthly_limit = 3000;
                 api_key = ''sk_'' @ token;
                 existing = find (\<lambda>r. customer_email r = Some email \<and>
                                        subscription_status r = ''active'') (api_keys d)
             in if existing \<noteq> None then
                  \<lparr>reg_result = Inl (HTTPException 409
                     ''An API key already exists for this email. Contact support if you need a new key.''),
                   reg_db = d, reg_attempts = att',
                   reg_trace = [Connect, SelectActiveKeyByEmail email]\<rparr>
                else
                  let row = new_key_row api_key tier (Some email) daily_limit monthly_limit
                  in case insert_api_key d row of
                       Inl e \<Rightarrow>
                         \<lparr>reg_result = Inl (HTTPException 500 ''Registration failed. Please try again.''),
                          reg_db = d, reg_attempts = att',
                          reg_trace = [Connect, SelectActiveKeyByEmail email, InsertApiKey row]\<rparr>
                     | Inr d' \<Rightarrow>
                         \<lparr>reg_result = Inr \<lparr>resp_api_key = api_key, resp_tier = tier,
                                             resp_daily_limit = daily_limit,
                                             resp_message = ''Keep this key secure.''\<rparr>,
                          reg_db = d', reg_attempts = att',
                          reg_trace = [Connect, SelectActiveKeyByEmail email, InsertApiKey row, Commit]\<rparr>)"

section \<open>The webhook ingestor\<close>

text \<open>
  The process environment holds the payment provider's settings; \<open>os.environ.get\<close>
  returns \<open>None\<close> for a variable that is not set. The provider's SDK is a
  collaborator: \<open>stripe.Webhook.construct_event\<close> is a parameter \<open>verify\<close> of the handlers, a
  function of the payload, the signature header and the shared secret that either
  raises \<open>ValueError\<close>, raises \<open>SignatureVerificationError\<close> or returns the event. Of an
  event the handlers read its type and, of its object, the identifier, the customer
  email, the price identifiers of the line items and the price identifier of the
  metadata; an object of any other shape is not a value of the type.
\<close>

record environ =
  STRIPE_SECRET_KEY :: "string option"
  STRIPE_WEBHOOK_SECRET :: "string option"
  STRIPE_DASHBOARD_PRICE :: "string option"
  STRIPE_BASIC_PRICE :: "string option"
  STRIPE_PRO_PRICE :: "string option"
  STRIPE_REVENUE_PRICE :: "string option"

definition environ_get :: "string option \<Rightarrow> string \<Rightarrow> string" where
  "environ_get v dflt = (case v of None \<Rightarrow> dflt | Some x \<Rightarrow> x)"

text \<open>
  A key of a JSON object that may be missing, \<open>null\<close> or a text:
  \<open>session.get("customer_email", "")\<close> is the empty text only when the key is missing.
\<close>

datatype json_text = Absent | Null | Text string

fun get_or :: "json_text \<Rightarrow> string \<Rightarrow> string option" where
  "get_or Absent dflt = Some dflt"
| "get_or Null dflt = None"
| "get_or (Text t) dflt = Some t"

record stripe_object =
  obj_id :: "string option"
  obj_customer_email :: json_text
  obj_line_item_prices :: "string option list"
  obj_metadata_price_id :: "string option"

record event =
  ev_type :: string
  ev_object :: stripe_object

datatype construct_result = ValueError | SignatureVerificationError | Event event

type_synonym construct_event = "string \<Rightarrow> string \<Rightarrow> string \<Rightarrow> construct_result"

record webhook_request =
  body :: string
  stripe_signature :: "string option"

text \<open>Python's truth of an optional text: \<open>None\<close> and the empty text are false.\<close>

fun truthy :: "string option \<Rightarrow> bool" where
  "truthy None = False"
| "truthy (Some t) = (t \<noteq> [])"

definition price_to_tier :: "environ \<Rightarrow> string \<rightharpoonup> string" where
  "price_to_tier env =
     [environ_get (STRIPE_BASIC_PRICE env) ''price_1SzPt7LnWY7IoSqm5YXJEHwy'' \<mapsto> ''basic'',
      environ_get (STRIPE_PRO_PRICE env) ''price_1SzPtMLnWY7IoSqm83uF3GM0'' \<mapsto> ''pro'',
      environ_get (STRIPE_REVENUE_PRICE env) ''price_1T0LN1LnWY7IoSqmOIELPsqF'' \<mapsto> ''revenue_api'']"

definition tier_of_price :: "environ \<Rightarrow> string option \<Rightarrow> string" where
  "tier_of_price env price_id =
     (case price_id of
        None \<Rightarrow> ''basic''
      | Some p \<Rightarrow> (case price_to_tier env p of None \<Rightarrow> ''basic'' | Some t \<Rightarrow> t))"

definition limits :: "string \<rightharpoonup> int" where
  "limits = [''basic'' \<mapsto> 1000, ''pro'' \<mapsto> 10000, ''revenue_api'' \<mapsto> 5000]"

definition limit_of_tier :: "string \<Rightarrow> int" where
  "limit_of_tier t = (case limits t of None \<Rightarrow> 1000 | Some l \<Rightarrow> l)"

definition select_price_id :: "stripe_object \<Rightarrow> string option" where
  "select_price_id session =
     (let price_id = (case obj_line_item_prices session of [] \<Rightarrow> None | p # ps \<Rightarrow> p)
      in if \<not> truthy price_id then obj_metadata_price_id session else price_id)"

text \<open>
  The key provisioning of \<open>stripe_webhook\<close> in \<open>main.py\<close>: the insert with the first
  token; when it raises \<open>IntegrityError\<close>, the handler of that exception mints a second
  token and inserts again. Nothing catches an exception of the second insert: it leaves
  the function, and the connection is closed without a commit.
\<close>

definition provision_key ::
  "db \<Rightarrow> string \<Rightarrow> string \<Rightarrow> string \<Rightarrow> string option \<Rightarrow> int \<Rightarrow> (exn + unit) \<times> db \<times> store_op list" where
  "provision_key d token1 token2 t e dl =
     (let row1 = new_key_row (''sk_'' @ token1) t e dl (dl * 30)
      in case insert_api_key d row1 of
           Inr d1 \<Rightarrow> (Inr (), d1, [Connect, InsertApiKey row1, Commit])
         | Inl err \<Rightarrow>
             (let row2 = new_key_row (''sk_'' @ token2) t e dl (dl * 30)
              in case insert_api_key d row2 of
                   Inr d2 \<Rightarrow> (Inr (), d2, [Connect, InsertApiKey row1, InsertApiKey row2, Commit])
                 | Inl err2 \<Rightarrow> (Inl err2, d, [Connect, InsertApiKey row1, InsertApiKey row2])))"

record webhook_outcome =
  wh_result :: "exn + string"
  wh_db :: db
  wh_trace :: "store_op list"

definition rejected :: "int \<Rightarrow> string \<Rightarrow> db \<Rightarrow> webhook_outcome" where
  "rejected code detail d =
     \<lparr>wh_result = Inl (HTTPException code detail), wh_db = d, wh_trace = []\<rparr>"

definition checkout_completed ::
  "environ \<Rightarrow> string \<Rightarrow> string \<Rightarrow> db \<Rightarrow> stripe_object \<Rightarrow> webhook_outcome" where
  "checkout_completed env token1 token2 d session =
     (let customer_email = get_or (obj_customer_email session) [];
          price_id = select_price_id session;
          DASHBOARD_PRICE = environ_get (STRIPE_DASHBOARD_PRICE env) ''price_1T1MFxLnWY7IoSqmd8R3pGJV''
      in if price_id = Some DASHBOARD_PRICE then
           \<lparr>wh_result = Inr ''dashboard_subscription_created'',
            wh_db = d\<lparr>dashboard_subscriptions := dashboard_subscriptions d @
                       [\<lparr>sub_customer_email = customer_email, sub_price_id = price_id,
                         stripe_session_id = obj_id session, sub_status = ''active''\<rparr>]\<rparr>,
            wh_trace = [Connect, Commit]\<rparr>
         else
           let tier = tier_of_price env price_id;
               daily_limit = limit_of_tier tier
           in case provision_key d token1 token2 tier customer_email daily_limit of
                (Inl err, d', tr) \<Rightarrow> \<lparr>wh_result = Inl err, wh_db = d', wh_trace = tr\<rparr>
              | (Inr u, d', tr) \<Rightarrow> \<lparr>wh_result = Inr ''received'', wh_db = d', wh_trace = tr\<rparr>)"

definition stripe_webhook ::
  "environ \<Rightarrow> construct_event \<Rightarrow> string \<Rightarrow> string \<Rightarrow> db \<Rightarrow> webhook_request \<Rightarrow> webhook_outcome" where
  "stripe_webhook env verify token1 token2 d request =
     (case STRIPE_WEBHOOK_SECRET env of
        None \<Rightarrow> rejected 503 ''Payment processing not configured'' d
      | Some webhook_secret \<Rightarrow>
          if \<not> truthy (STRIPE_SECRET_KEY env) \<or> webhook_secret = [] then
            rejected 503 ''Payment processing not configured'' d
          else
            (case stripe_signature request of
               None \<Rightarrow> rejected 400 ''Missing signature'' d
             | Some sig_header \<Rightarrow>
                 if sig_header = [] then rejected 400 ''Missing signature'' d
                 else
                   (case verify (body request) sig_header webhook_secret of
                      ValueError \<Rightarrow> rejected 400 ''Invalid payload'' d
                    | SignatureVerificationError \<Rightarrow> rejected 400 ''Invalid signature'' d
                    | Event ev \<Rightarrow>
                        if ev_type ev = ''checkout.session.completed''
                        then checkout_completed env token1 token2 d (ev_object ev)
                        else \<lparr>wh_result = Inr ''received'', wh_db = d, wh_trace = []\<rparr>)))"

text \<open>
  The handler of the payment microservice, \<open>stripe_webhook\<close> in
  \<open>stripe/stripe_api.py\<close>. Its secret has a default. Its updates of the \<open>payments\<close>
  table run under \<open>except Exception\<close>, so it answers \<open>received\<close> for every verified
  event.
\<close>

definition set_payment_status :: "clock \<Rightarrow> string option \<Rightarrow> string \<Rightarrow> db \<Rightarrow> db" where
  "set_payment_status clk pid st d =
     d\<lparr>payments := map (\<lambda>p. if Some (payment_intent_id p) = pid
                               then p\<lparr>pay_status := st, pay_updated_at := CURRENT_TIMESTAMP clk\<rparr>
                               else p) (payments d)\<rparr>"

definition stripe_api_webhook ::
  "environ \<Rightarrow> construct_event \<Rightarrow> clock \<Rightarrow> db \<Rightarrow> webhook_request \<Rightarrow> webhook_outcome" where
  "stripe_api_webhook env verify clk d request =
     (case stripe_signature request of
        None \<Rightarrow> rejected 400 ''Missing Stripe-Signature header'' d
      | Some sig_header \<Rightarrow>
          if sig_header = [] then rejected 400 ''Missing Stripe-Signature header'' d
          else
            (case verify (body request) sig_header
                    (environ_get (STRIPE_WEBHOOK_SECRET env) ''whsec_placeholder'') of
               ValueError \<Rightarrow> rejected 400 ''Invalid payload'' d
             | SignatureVerificationError \<Rightarrow> rejected 400 ''Invalid signature'' d
             | Event ev \<Rightarrow>
                 if ev_type ev = ''payment_intent.succeeded'' then
                   \<lparr>wh_result = Inr ''received'',
                    wh_db = set_payment_status clk (obj_id (ev_object ev)) ''succeeded'' d,
                    wh_trace = [Connect, Commit]\<rparr>
                 else if ev_type ev = ''payment_intent.payment_failed'' then
                   \<lparr>wh_result = Inr ''received'',
                    wh_db = set_payment_status clk (obj_id (ev_object ev)) ''failed'' d,
                    wh_trace = [Connect, Commit]\<rparr>
                 else \<lparr>wh_result = Inr ''received'', wh_db = d, wh_trace = []\<rparr>))"

section \<open>The revenue ledger\<close>

text \<open>
  The REAL columns of \<open>revenue_streams\<close> and the floats of the requests are real
  numbers here: the rounding of binary floating point is not part of the model. Every
  endpoint of the ledger starts with the authorization gate. The store is taken to
  answer every statement, so the branches that turn an \<open>sqlite3.Error\<close> into status 500
  are not reached.
\<close>

definition VALID_CATEGORIES :: "string list" where
  "VALID_CATEGORIES = [''api'', ''product'', ''service'', ''consulting'']"

text \<open>
  \<open>html.escape\<close> with its default \<open>quote=True\<close>: the ampersand first, then the angle
  brackets, the double quote (code 0x22) and the apostrophe (code 0x27).
\<close>

definition escape_char :: "char \<Rightarrow> string" where
  "escape_char c =
     (if c = CHR ''&'' then ''&amp;''
      else if c = CHR ''<'' then ''&lt;''
      else if c = CHR ''>'' then ''&gt;''
      else if c = CHR 0x22 then ''&quot;''
      else if c = CHR 0x27 then ''&#x27;''
      else [c])"

definition html_escape :: "string \<Rightarrow> string" where
  "html_escape s = concat (map escape_char s)"

record RevenueStream =
  s_name :: string
  s_category :: string
  s_monthly_revenue :: real
  s_potential_monthly :: real
  s_growth_rate :: real
  s_notes :: "string option"

record RevenueStreamUpdate =
  u_monthly_revenue :: "real option"
  u_potential_monthly :: "real option"
  u_growth_rate :: "real option"
  u_notes :: "string option"

text \<open>
  The identifier SQLite gives a new row of an AUTOINCREMENT table is one more than the
  largest identifier the table has held; the service never deletes a stream.
\<close>

definition lastrowid :: "revenue_stream_row list \<Rightarrow> int" where
  "lastrowid rows = foldr max (map stream_id rows) 0 + 1"

text \<open>
  \<open>create_revenue_stream\<close>. The detail of the status 400 also lists the categories, in
  the order of a Python set, which is not fixed; the model keeps its first sentence.
\<close>

definition create_revenue_stream ::
  "db \<Rightarrow> clock \<Rightarrow> string option \<Rightarrow> RevenueStream \<Rightarrow> (exn + int) \<times> db" where
  "create_revenue_stream d clk x_api_key stream =
     (case get_auth d clk x_api_key of
        Inl e \<Rightarrow> (Inl e, d)
      | Inr auth \<Rightarrow>
          if s_category stream \<notin> set VALID_CATEGORIES then
            (Inl (HTTPException 400 ''Invalid category.''), d)
          else
            let safe_name = html_escape (s_name stream);
                safe_notes = (if truthy (s_notes stream)
                              then map_option html_escape (s_notes stream) else None);
                new_id = lastrowid (revenue_streams d);
                row = \<lparr>stream_id = new_id, name = safe_name, category = s_category stream,
                       monthly_revenue = Some (s_monthly_revenue stream),
                       potential_monthly = s_potential_monthly stream,
                       growth_rate = Some (s_growth_rate stream),
                       stream_notes = safe_notes,
                       rs_created_at = CURRENT_TIMESTAMP clk,
                       updated_at = CURRENT_TIMESTAMP clk\<rparr>
            in (Inr new_id, d\<lparr>revenue_streams := revenue_streams d @ [row]\<rparr>))"

text \<open>
  \<open>update_revenue_stream\<close>: the SET list holds one assignment for each field of the
  request that is not \<open>None\<close>, and always \<open>updated_at = CURRENT_TIMESTAMP\<close>; the rows
  touched are those with the identifier.
\<close>

definition apply_update :: "clock \<Rightarrow> RevenueStreamUpdate \<Rightarrow> revenue_stream_row \<Rightarrow> revenue_stream_row" where
  "apply_update clk u r =
     r\<lparr>monthly_revenue :=
          (case u_monthly_revenue u of None \<Rightarrow> monthly_revenue r | Some v \<Rightarrow> Some v),
       potential_monthly :=
          (case u_potential_monthly u of None \<Rightarrow> potential_monthly r | Some v \<Rightarrow> v),
       growth_rate :=
          (case u_growth_rate u of None \<Rightarrow> growth_rate r | Some v \<Rightarrow> Some v),
       stream_notes :=
          (case u_notes u of None \<Rightarrow> stream_notes r | Some n \<Rightarrow> Some (html_escape n)),
       updated_at := CURRENT_TIMESTAMP clk\<rparr>"

definition no_fields :: "RevenueStreamUpdate \<Rightarrow> bool" where
  "no_fields u =
     (u_monthly_revenue u = None \<and> u_potential_monthly u = None \<and>
      u_growth_rate u = None \<and> u_notes u = None)"

definition update_revenue_stream ::
  "db \<Rightarrow> clock \<Rightarrow> string option \<Rightarrow> int \<Rightarrow> RevenueStreamUpdate \<Rightarrow> (exn + string) \<times> db" where
  "update_revenue_stream d clk x_api_key sid u =
     (case get_auth d clk x_api_key of
        Inl e \<Rightarrow> (Inl e, d)
      | Inr auth \<Rightarrow>
          if no_fields u then (Inl (HTTPException 400 ''No fields to update''), d)
          else
            let rowcount = length (filter (\<lambda>r. stream_id r = sid) (revenue_streams d))
            in if rowcount = 0 then (Inl (HTTPException 404 ''Revenue stream not found''), d)
               else (Inr ''Revenue stream updated successfully'',
                     d\<lparr>revenue_streams :=
                          map (\<lambda>r. if stream_id r = sid then apply_update clk u r else r)
                              (revenue_streams d)\<rparr>))"

text \<open>
  The aggregates of SQL: \<open>SUM\<close> and \<open>AVG\<close> (here \<open>sql_SUM\<close>, \<open>sql_AVG\<close>) skip NULL and are NULL when nothing is left;
  \<open>COALESCE\<close> replaces NULL.
\<close>

fun non_null :: "'a option list \<Rightarrow> 'a list" where
  "non_null [] = []"
| "non_null (None # xs) = non_null xs"
| "non_null (Some x # xs) = x # non_null xs"

definition sql_SUM :: "real option list \<Rightarrow> real option" where
  "sql_SUM xs = (if non_null xs = [] then None else Some (sum_list (non_null xs)))"

definition sql_AVG :: "real option list \<Rightarrow> real option" where
  "sql_AVG xs =
     (if non_null xs = [] then None
      else Some (sum_list (non_null xs) / real (length (non_null xs))))"

definition sql_COALESCE :: "real option \<Rightarrow> real \<Rightarrow> real" where
  "sql_COALESCE v dflt = (case v of None \<Rightarrow> dflt | Some x \<Rightarrow> x)"

record revenue_summary =
  total_streams :: int
  total_monthly_revenue :: real
  total_potential_revenue :: real
  avg_growth_rate :: real
  revenue_gap :: real

definition get_revenue_summary :: "db \<Rightarrow> clock \<Rightarrow> string option \<Rightarrow> exn + revenue_summary" where
  "get_revenue_summary d clk x_api_key =
     (case get_auth d clk x_api_key of
        Inl e \<Rightarrow> Inl e
      | Inr auth \<Rightarrow>
          let rows = revenue_streams d;
              summary0 = int (length rows);
              summary1 = sql_COALESCE (sql_SUM (map monthly_revenue rows)) 0;
              summary2 = sql_COALESCE (sql_SUM (map (\<lambda>r. Some (potential_monthly r)) rows)) 0;
              summary3 = sql_COALESCE (sql_AVG (map growth_rate rows)) 0
          in Inr \<lparr>total_streams = summary0, total_monthly_revenue = summary1,
                  total_potential_revenue = summary2, avg_growth_rate = summary3,
                  revenue_gap = summary2 - summary1\<rparr>)"

section \<open>The prediction-market listing\<close>

text \<open>
  The query of \<open>get_polymarket_markets\<close> (\<open>main.py\<close>) and of \<open>get_markets\<close>
  (\<open>polymarket.py\<close>): \<open>WHERE active = 1\<close> when \<open>active_only\<close> is set, the category
  condition when a non-empty category is given, \<open>ORDER BY volume24h DESC\<close> (SQLite puts
  NULL last in a descending order; the order of rows with equal volume is not fixed by
  SQL, here the later row comes first) and \<open>LIMIT\<close>, which SQLite ignores when it is
  negative.
\<close>

definition sql_limit :: "int \<Rightarrow> 'a list \<Rightarrow> 'a list" where
  "sql_limit n rows = (if n < 0 then rows else take (nat n) rows)"

definition select_markets :: "db \<Rightarrow> bool \<Rightarrow> string option \<Rightarrow> int \<Rightarrow> market_row list" where
  "select_markets d active_only cat limit =
     (let rows0 = polymarket_markets d;
          rows1 = (if active_only then filter (\<lambda>r. active r = Some 1) rows0 else rows0);
          rows2 = (if truthy cat then filter (\<lambda>r. pm_category r = cat) rows1 else rows1)
      in sql_limit limit (rev (sort_key volume24h rows2)))"

text \<open>
  A returned market is the row as a dictionary in which \<open>outcomes\<close> and \<open>raw_data\<close>,
  when they hold a non-empty text, are replaced by what \<open>json.loads\<close> makes of it, or by
  the empty list and the empty object when it raises. \<open>json.loads\<close> is a parameter
  \<open>loads\<close>, \<open>None\<close> standing for \<open>JSONDecodeError\<close>; \<open>'j\<close> is the type of JSON values.
\<close>

datatype 'j field = Stored "string option" | Loaded 'j

record 'j market =
  mk_row :: market_row
  mk_outcomes :: "'j field"
  mk_raw_data :: "'j field"

definition load_field :: "(string \<Rightarrow> 'j option) \<Rightarrow> 'j \<Rightarrow> string option \<Rightarrow> 'j field" where
  "load_field loads dflt v =
     (case v of
        None \<Rightarrow> Stored None
      | Some t \<Rightarrow>
          if t = [] then Stored (Some t)
          else (case loads t of None \<Rightarrow> Loaded dflt | Some j \<Rightarrow> Loaded j))"

definition to_market :: "(string \<Rightarrow> 'j option) \<Rightarrow> 'j \<Rightarrow> 'j \<Rightarrow> market_row \<Rightarrow> 'j market" where
  "to_market loads empty_list empty_object row =
     \<lparr>mk_row = row,
      mk_outcomes = load_field loads empty_list (outcomes row),
      mk_raw_data = load_field loads empty_object (raw_data row)\<rparr>"

record 'j listing =
  markets :: "'j market list"
  listing_count :: int

definition get_polymarket_markets ::
  "(string \<Rightarrow> 'j option) \<Rightarrow> 'j \<Rightarrow> 'j \<Rightarrow> db \<Rightarrow> clock \<Rightarrow> string option \<Rightarrow>
     int \<Rightarrow> string option \<Rightarrow> bool \<Rightarrow> exn + 'j listing" where
  "get_polymarket_markets loads empty_list empty_object d clk x_api_key limit cat active_only =
     (case get_auth d clk x_api_key of
        Inl e \<Rightarrow> Inl e
      | Inr auth \<Rightarrow>
          let rows = select_markets d active_only cat (min limit 100);
              ms = map (to_market loads empty_list empty_object) rows
          in Inr \<lparr>markets = ms, listing_count = int (length ms)\<rparr>)"

definition get_markets ::
  "(string \<Rightarrow> 'j option) \<Rightarrow> 'j \<Rightarrow> 'j \<Rightarrow> db \<Rightarrow> int \<Rightarrow> string option \<Rightarrow> bool \<Rightarrow> 'j listing" where
  "get_markets loads empty_list empty_object d limit cat active_only =
     (let rows = select_markets d active_only cat limit;
          ms = map (to_market loads empty_list empty_object) rows
      in \<lparr>markets = ms, listing_count = int (length ms)\<rparr>)"

section \<open>Example store\<close>

definition demo_key :: api_key_row where
  "demo_key = \<lparr>api_key = ''demo-free-key'', tier = ''free'',
                customer_email = Some ''demo@example.com'', daily_limit = Some 2,
                monthly_limit = Some 3000, subscription_status = ''active'',
                email_sent = Some 0, email_sent_at = None\<rparr>"

definition revoked_key :: api_key_row where
  "revoked_key = \<lparr>api_key = ''sk_old'', tier = ''pro'',
                   customer_email = Some ''old@example.com'', daily_limit = Some 10000,
                   monthly_limit = Some 300000, subscription_status = ''revoked'',
                   email_sent = Some 0, email_sent_at = None\<rparr>"

definition empty_db :: db where
  "empty_db = \<lparr>api_keys = [], api_usage_log = [], revenue_streams = [],
                dashboard_subscriptions = [], polymarket_markets = [], payments = []\<rparr>"

definition demo_db :: db where
  "demo_db = empty_db\<lparr>api_keys := [demo_key, revoked_key]\<rparr>"

text \<open>A host whose zone is UTC, at 23:30 UTC of 30 June 2025.\<close>

definition utc_host :: clock where
  "utc_host = \<lparr>CURRENT_TIMESTAMP = \<lparr>ts_date = ''2025-06-30'', ts_time = ''23:30:00''\<rparr>,
                strftime_Ymd = ''2025-06-30'', time_time = 1751326200\<rparr>"

text \<open>
  Three requests of the demo key (daily limit 2) reach a host one hour ahead of UTC at
  23:10, 23:20 and 23:30 UTC of 30 June, which is 00:10, 00:20 and 00:30 of 1 July on the
  host: one calendar day in either zone. The middleware logs the first two.
\<close>

definition bst_host_at :: "string \<Rightarrow> real \<Rightarrow> clock" where
  "bst_host_at hms t = \<lparr>CURRENT_TIMESTAMP = \<lparr>ts_date = ''2025-06-30'', ts_time = hms\<rparr>,
                        strftime_Ymd = ''2025-07-01'', time_time = t\<rparr>"

definition two_logged :: db where
  "two_logged =
     log_api_usage (bst_host_at ''23:20:00'' 1751325600) (Some ''demo-free-key'') ''/brain/goals'' 4 200
       (log_api_usage (bst_host_at ''23:10:00'' 1751325000) (Some ''demo-free-key'') ''/brain/goals'' 5 200
          demo_db)"

text \<open>The same three requests on a host whose zone is UTC.\<close>

definition utc_host_at :: "string \<Rightarrow> real \<Rightarrow> clock" where
  "utc_host_at hms t = \<lparr>CURRENT_TIMESTAMP = \<lparr>ts_date = ''2025-06-30'', ts_time = hms\<rparr>,
                        strftime_Ymd = ''2025-06-30'', time_time = t\<rparr>"

definition two_logged_utc :: db where
  "two_logged_utc =
     log_api_usage (utc_host_at ''23:20:00'' 1751325600) (Some ''demo-free-key'') ''/brain/goals'' 4 200
       (log_api_usage (utc_host_at ''23:10:00'' 1751325000) (Some ''demo-free-key'') ''/brain/goals'' 5 200
          demo_db)"

text \<open>An address with two registrations in the last hour, at 22:53 and 23:10 UTC.\<close>

definition two_attempts :: attempts where
  "two_attempts = [''203.0.113.7'' \<mapsto> [1751324000, 1751325000]]"

text \<open>
  That address registers a new email, and a minute later the same email once more.
\<close>

definition a_minute_later :: clock where
  "a_minute_later = \<lparr>CURRENT_TIMESTAMP = \<lparr>ts_date = ''2025-06-30'', ts_time = ''23:31:00''\<rparr>,
                      strftime_Ymd = ''2025-06-30'', time_time = 1751326260\<rparr>"

definition first_registration :: register_outcome where
  "first_registration =
     register utc_host ''Zm9v'' two_attempts demo_db ''new@example.com'' (Some ''203.0.113.7'')"

definition second_registration :: register_outcome where
  "second_registration =
     register a_minute_later ''YmFy'' (reg_attempts first_registration) (reg_db first_registration)
       ''new@example.com'' (Some ''203.0.113.7'')"

text \<open>
  A configured environment, a checkout event for the basic price, and a verification
  that accepts one signature header only.
\<close>

definition demo_env :: environ where
  "demo_env = \<lparr>STRIPE_SECRET_KEY = Some ''sk_test_51'', STRIPE_WEBHOOK_SECRET = Some ''whsec_test'',
                STRIPE_DASHBOARD_PRICE = None, STRIPE_BASIC_PRICE = None,
                STRIPE_PRO_PRICE = None, STRIPE_REVENUE_PRICE = None\<rparr>"

definition checkout_event :: event where
  "checkout_event =
     \<lparr>ev_type = ''checkout.session.completed'',
      ev_object = \<lparr>obj_id = Some ''cs_test_1'', obj_customer_email = Text ''test@example.com'',
                   obj_line_item_prices = [Some ''price_1SzPt7LnWY7IoSqm5YXJEHwy''],
                   obj_metadata_price_id = Some ''price_1SzPt7LnWY7IoSqm5YXJEHwy''\<rparr>\<rparr>"

definition demo_verify :: construct_event where
  "demo_verify payload sig_header secret =
     (if sig_header = ''t=1,v1=good'' \<and> secret = ''whsec_test'' then Event checkout_event
      else SignatureVerificationError)"

definition signed_request :: webhook_request where
  "signed_request = \<lparr>body = ''{}'', stripe_signature = Some ''t=1,v1=good''\<rparr>"

definition forged_request :: webhook_request where
  "forged_request = \<lparr>body = ''{}'', stripe_signature = Some ''t=1,v1=forged''\<rparr>"

text \<open>A key store that already holds the two tokens the generator is about to return.\<close>

definition colliding_db :: db where
  "colliding_db = empty_db\<lparr>api_keys :=
     [new_key_row ''sk_AAAA'' ''basic'' (Some ''a@example.com'') 1000 30000,
      new_key_row ''sk_BBBB'' ''pro'' (Some ''b@example.com'') 10000 300000]\<rparr>"

text \<open>
  The stream of the service's own test, the store after it has been created with the
  demo key and the request has been logged, and the same host a day later.
\<close>

definition demo_stream :: RevenueStream where
  "demo_stream = \<lparr>s_name = ''AIDAN Brain API'', s_category = ''api'',
                   s_monthly_revenue = 500, s_potential_monthly = 5000,
                   s_growth_rate = 10.5,
                   s_notes = Some ''AI memory and knowledge search API''\<rparr>"

definition one_stream_db :: db where
  "one_stream_db =
     log_api_usage utc_host (Some ''demo-free-key'') ''/revenue/streams'' 3 200
       (snd (create_revenue_stream demo_db utc_host (Some ''demo-free-key'') demo_stream))"

definition next_day :: clock where
  "next_day = \<lparr>CURRENT_TIMESTAMP = \<lparr>ts_date = ''2025-07-01'', ts_time = ''09:00:00''\<rparr>,
                strftime_Ymd = ''2025-07-01'', time_time = 1751360400\<rparr>"

definition only_growth_rate :: RevenueStreamUpdate where
  "only_growth_rate = \<lparr>u_monthly_revenue = None, u_potential_monthly = None,
                        u_growth_rate = Some 12, u_notes = None\<rparr>"

text \<open>
  Three stored markets, the second one closed, and a stand-in for \<open>json.loads\<close> on
  texts as JSON values that rejects one text.
\<close>

definition market :: "string \<Rightarrow> real \<Rightarrow> int \<Rightarrow> string option \<Rightarrow> market_row" where
  "market i v a out =
     \<lparr>market_id = i, question = Some ''Will it happen?'', pm_category = Some ''politics'',
      volume24h = Some v, active = Some a, outcomes = out, raw_data = None,
      pm_updated_at = CURRENT_TIMESTAMP utc_host\<rparr>"

definition markets_db :: db where
  "markets_db = demo_db\<lparr>polymarket_markets :=
     [market ''m1'' 100 1 (Some ''[1, 2]''), market ''m2'' 900 0 None, market ''m3'' 500 1 (Some ''bad'')]\<rparr>"

definition demo_loads :: "string \<Rightarrow> string option" where
  "demo_loads t = (if t = ''bad'' then None else Some t)"

section \<open>Properties of the authorization gate\<close>

lemma get_key_info_None_iff:
  "get_key_info d k = None \<longleftrightarrow>
     (\<forall>r \<in> set (api_keys d). api_key r = k \<longrightarrow> subscription_status r \<noteq> ''active'')"
proof -
  have "get_key_info d k = None \<longleftrightarrow>
        find (\<lambda>r. api_key r = k \<and> subscription_status r = ''active'') (api_keys d) = None"
    by (simp add: get_key_info_def split: option.splits)
  then show ?thesis
    by (simp add: find_None_iff) blast
qed

lemma get_key_info_Some:
  assumes "get_key_info d k = Some info"
  shows "\<exists>r \<in> set (api_keys d). api_key r = k \<and> subscription_status r = ''active'' \<and>
           ki_tier info = tier r \<and> ki_daily_limit info = daily_limit r"
proof -
  from assms obtain r where
    f: "find (\<lambda>r. api_key r = k \<and> subscription_status r = ''active'') (api_keys d) = Some r"
    and i: "info = \<lparr>ki_tier = tier r, ki_name = customer_email r, ki_daily_limit = daily_limit r\<rparr>"
    by (auto simp: get_key_info_def split: option.splits)
  from f have "r \<in> set (api_keys d)" "api_key r = k" "subscription_status r = ''active''"
    by (auto simp: find_Some_iff)
  with i show ?thesis by auto
qed


lemma get_auth_active:
  assumes "k \<noteq> []" and "get_key_info d k = Some info" and "ki_daily_limit info = Some L"
  shows "get_auth d clk (Some k) =
           (if L \<le> usage_count d k (strftime_Ymd clk)
            then Inl (HTTPException 429 ''Rate limit exceeded'') else Inr info)"
  using assms by (simp add: get_auth_def check_rate_limit_def)

text \<open>
  On a host whose local date is the UTC date the gate is the one the specification
  describes: an active key with daily limit \<open>L\<close> is refused with status 429 exactly when
  the ledger holds at least \<open>L\<close> rows of the key dated with the current UTC date, and is
  otherwise answered with the key's tier and limit.
\<close>

lemma get_auth_active_utc_host:
  assumes "k \<noteq> []" and "get_key_info d k = Some info" and "ki_daily_limit info = Some L"
    and "strftime_Ymd clk = ts_date (CURRENT_TIMESTAMP clk)"
  shows "get_auth d clk (Some k) =
           (if L \<le> usage_count d k (ts_date (CURRENT_TIMESTAMP clk))
            then Inl (HTTPException 429 ''Rate limit exceeded'') else Inr info)"
  using get_auth_active [OF assms(1-3), of clk] assms(4) by simp

text \<open>
  The middleware's row counts for the UTC date at which it is written, and it leaves the
  key store alone; on the UTC host the third request of the example is refused.
\<close>

lemma usage_count_log_api_usage:
  assumes "k \<noteq> []"
  shows "usage_count (log_api_usage clk (Some k) path ms code d) k (ts_date (CURRENT_TIMESTAMP clk)) =
           usage_count d k (ts_date (CURRENT_TIMESTAMP clk)) + 1"
  using assms by (simp add: usage_count_def log_api_usage_def)

lemma get_key_info_log_api_usage:
  "get_key_info (log_api_usage clk x path ms code d) k = get_key_info d k"
  by (simp add: get_key_info_def log_api_usage_def split: option.splits)

lemma get_auth_utc_host_rate_limited:
  "get_auth two_logged_utc (utc_host_at ''23:30:00'' 1751326200) (Some ''demo-free-key'') =
     Inl (HTTPException 429 ''Rate limit exceeded'')"
  by (simp add: get_auth_def check_rate_limit_def usage_count_def get_key_info_def two_logged_utc_def
      log_api_usage_def demo_db_def empty_db_def demo_key_def revoked_key_def utc_host_at_def)

text \<open>
  Claim C1 (rate limit on the daily quota), evaluated where the code departs from it:
  with two requests of the key logged on the current UTC date and a daily limit of 2,
  the third request of that day is not refused. \<open>check_rate_limit\<close> compares SQLite's
  UTC date of each row with the host's local date, so on a host that is not on UTC the
  rows of the current UTC day are not counted while the two dates differ.
\<close>

theorem get_auth_local_date_not_rate_limited:
  "get_key_info two_logged ''demo-free-key'' =
     Some \<lparr>ki_tier = ''free'', ki_name = Some ''demo@example.com'', ki_daily_limit = Some 2\<rparr>
   \<and> int (length (filter (\<lambda>u. ul_api_key u = ''demo-free-key'' \<and>
          ts_date (created_at u) = ts_date (CURRENT_TIMESTAMP (bst_host_at ''23:30:00'' 1751326200)))
          (api_usage_log two_logged))) = 2
   \<and> get_auth two_logged (bst_host_at ''23:30:00'' 1751326200) (Some ''demo-free-key'') =
       Inr \<lparr>ki_tier = ''free'', ki_name = Some ''demo@example.com'', ki_daily_limit = Some 2\<rparr>"
  by (simp add: get_auth_def check_rate_limit_def usage_count_def get_key_info_def two_logged_def
      log_api_usage_def demo_db_def empty_db_def demo_key_def revoked_key_def bst_host_at_def)

text \<open>
  Claim C2 (missing and invalid credentials). A request without a token (no header, or
  an empty one) is refused with status 401. A token that no row of the key store
  carries, and a token whose rows all have a status other than \<open>active\<close>, are both
  refused with status 403 and the same detail \<open>Invalid API key\<close>, so the answer does
  not tell an unknown token from a revoked one.
\<close>

theorem get_auth_unauthenticated_or_forbidden:
  "get_auth d clk None = Inl (HTTPException 401 ''Missing X-API-Key header'')
   \<and> get_auth d clk (Some []) = Inl (HTTPException 401 ''Missing X-API-Key header'')
   \<and> (k \<noteq> [] \<and> (\<forall>r \<in> set (api_keys d). api_key r \<noteq> k) \<longrightarrow>
        get_auth d clk (Some k) = Inl (HTTPException 403 ''Invalid API key''))
   \<and> (k' \<noteq> [] \<and> (\<forall>r \<in> set (api_keys d). api_key r = k' \<longrightarrow> subscription_status r \<noteq> ''active'') \<longrightarrow>
        get_auth d clk (Some k') = Inl (HTTPException 403 ''Invalid API key''))"
proof -
  have unknown: "get_key_info d k = None" if "\<forall>r \<in> set (api_keys d). api_key r \<noteq> k"
    using that by (simp add: get_key_info_None_iff)
  have revoked: "get_key_info d k' = None"
    if "\<forall>r \<in> set (api_keys d). api_key r = k' \<longrightarrow> subscription_status r \<noteq> ''active''"
    using that by (simp add: get_key_info_None_iff)
  show ?thesis
    using unknown revoked by (simp add: get_auth_def)
qed

theorem get_auth_unauthenticated_or_forbidden_witness:
  "''sk_unknown'' \<notin> set (map api_key (api_keys demo_db))
   \<and> map subscription_status (filter (\<lambda>r. api_key r = ''sk_old'') (api_keys demo_db)) = [''revoked'']
   \<and> get_auth demo_db utc_host None = Inl (HTTPException 401 ''Missing X-API-Key header'')
   \<and> get_auth demo_db utc_host (Some ''sk_unknown'') = Inl (HTTPException 403 ''Invalid API key'')
   \<and> get_auth demo_db utc_host (Some ''sk_old'') = Inl (HTTPException 403 ''Invalid API key'')"
proof -
  have keys: "api_keys demo_db = [demo_key, revoked_key]"
    by (simp add: demo_db_def empty_db_def)
  have h1: "\<forall>r \<in> set (api_keys demo_db). api_key r \<noteq> ''sk_unknown''"
    by (simp add: keys demo_key_def revoked_key_def)
  have h2: "\<forall>r \<in> set (api_keys demo_db). api_key r = ''sk_old'' \<longrightarrow> subscription_status r \<noteq> ''active''"
    by (simp add: keys demo_key_def revoked_key_def)
  have h3: "map subscription_status (filter (\<lambda>r. api_key r = ''sk_old'') (api_keys demo_db)) = [''revoked'']"
    by (simp add: keys demo_key_def revoked_key_def)
  have h4: "''sk_unknown'' \<notin> set (map api_key (api_keys demo_db))"
    by (simp add: keys demo_key_def revoked_key_def)
  show ?thesis
    using h1 h2 h3 h4
      get_auth_unauthenticated_or_forbidden [of demo_db utc_host "''sk_unknown''" "''sk_old''"]
    by simp
qed

section \<open>Properties of self-registration\<close>

lemma recent_after_append:
  "filter (\<lambda>t. time_time clk - t < REGISTRATION_WINDOW_SECONDS) (recent clk att ip @ [time_time clk])
     = recent clk att ip @ [time_time clk]"
  by (simp add: recent_def REGISTRATION_WINDOW_SECONDS_def)

lemma check_registration_rate_below_cap:
  assumes "length (recent clk att ip) < MAX_REGISTRATIONS_PER_IP"
  shows "check_registration_rate clk att ip = (True, att(ip \<mapsto> recent clk att ip @ [time_time clk]))"
  using assms by (simp add: check_registration_rate_def Let_def)

lemma check_registration_rate_at_cap:
  assumes "MAX_REGISTRATIONS_PER_IP \<le> length (recent clk att ip)"
  shows "check_registration_rate clk att ip = (False, att(ip \<mapsto> recent clk att ip))"
  using assms by (simp add: check_registration_rate_def Let_def)

lemma find_active_email:
  "(find (\<lambda>r. customer_email r = Some e \<and> subscription_status r = ''active'') ks \<noteq> None)
     \<longleftrightarrow> (\<exists>r \<in> set ks. customer_email r = Some e \<and> subscription_status r = ''active'')"
  by (simp add: find_None_iff) blast

text \<open>
  What \<open>EMAIL_RE.match\<close> accepts and refuses: an address, the same address followed by
  one line feed (the \<open>$\<close> of the pattern), and not a text without \<open>@\<close>, a domain
  without a dot, or an address with a space.
\<close>

lemma EMAIL_RE_examples:
  "re_match EMAIL_RE ''demo@example.com''"
  "re_match EMAIL_RE (''demo@example.com'' @ [CHR 0x0A])"
  "\<not> re_match EMAIL_RE ''not-an-email''"
  "\<not> re_match EMAIL_RE ''demo@localhost''"
  "\<not> re_match EMAIL_RE ''de mo@example.com''"
  by code_simp+

text \<open>
  Claim C8 (invalid email). A registration whose email does not match \<open>EMAIL_RE\<close> is
  answered with status 400 \<open>Invalid email format\<close>; the handler has executed no
  statement on the store, not even opened a connection, the store is as it was, and so
  is the window of the source address.
\<close>

theorem register_invalid_email_never_reaches_store:
  assumes "\<not> re_match EMAIL_RE email"
  shows "register clk token att d email client_host =
           \<lparr>reg_result = Inl (HTTPException 400 ''Invalid email format''),
            reg_db = d, reg_attempts = att, reg_trace = []\<rparr>"
  using assms by (simp add: register_def)

theorem register_invalid_email_never_reaches_store_witness:
  "\<not> re_match EMAIL_RE ''not-an-email''
   \<and> register utc_host ''Zm9v'' two_attempts demo_db ''not-an-email'' (Some ''203.0.113.7'') =
       \<lparr>reg_result = Inl (HTTPException 400 ''Invalid email format''),
        reg_db = demo_db, reg_attempts = two_attempts, reg_trace = []\<rparr>"
proof -
  have bad: "\<not> re_match EMAIL_RE ''not-an-email''"
    by code_simp
  show ?thesis
    using bad register_invalid_email_never_reaches_store
      [OF bad, of utc_host "''Zm9v''" two_attempts demo_db "Some ''203.0.113.7''"]
    by simp
qed

text \<open>
  The claim about a duplicate registration (C7), as it is stated, fails where the
  source address is at its cap. An address with two registrations in the last hour
  registers \<open>new@example.com\<close>: the request succeeds and takes the third slot of the
  hour. It registers the same email again: an active key carries the email, and the
  request is answered with status 429, not 409, because \<open>check_registration_rate\<close>
  refuses it before the key table is read.
\<close>

theorem register_duplicate_email_at_cap_counterexample:
  "reg_result first_registration =
     Inr \<lparr>resp_api_key = ''sk_Zm9v'', resp_tier = ''free'', resp_daily_limit = 100,
          resp_message = ''Keep this key secure.''\<rparr>
   \<and> customer_email (last (api_keys (reg_db first_registration))) = Some ''new@example.com''
   \<and> subscription_status (last (api_keys (reg_db first_registration))) = ''active''
   \<and> reg_result second_registration =
       Inl (HTTPException 429 ''Too many registrations. Try again later.'')
   \<and> reg_result second_registration \<noteq>
       Inl (HTTPException 409
         ''An API key already exists for this email. Contact support if you need a new key.'')"
proof -
  have ok: "re_match EMAIL_RE ''new@example.com''"
    by code_simp
  have kept: "recent utc_host two_attempts ''203.0.113.7'' = [1751324000, 1751325000]"
    by (simp add: recent_def two_attempts_def utc_host_def REGISTRATION_WINDOW_SECONDS_def)
  have rate: "check_registration_rate utc_host two_attempts ''203.0.113.7'' =
                (True, two_attempts(''203.0.113.7'' \<mapsto> [1751324000, 1751325000, 1751326200]))"
    using check_registration_rate_below_cap [of utc_host two_attempts "''203.0.113.7''"]
    by (simp add: kept MAX_REGISTRATIONS_PER_IP_def) (simp add: utc_host_def)
  have first: "first_registration =
      \<lparr>reg_result = Inr \<lparr>resp_api_key = ''sk_Zm9v'', resp_tier = ''free'', resp_daily_limit = 100,
                          resp_message = ''Keep this key secure.''\<rparr>,
       reg_db = demo_db\<lparr>api_keys := [demo_key, revoked_key,
                  new_key_row ''sk_Zm9v'' ''free'' (Some ''new@example.com'') 100 3000]\<rparr>,
       reg_attempts = two_attempts(''203.0.113.7'' \<mapsto> [1751324000, 1751325000, 1751326200]),
       reg_trace = [Connect, SelectActiveKeyByEmail ''new@example.com'',
                    InsertApiKey (new_key_row ''sk_Zm9v'' ''free'' (Some ''new@example.com'') 100 3000),
                    Commit]\<rparr>"
    using ok
    by (simp add: first_registration_def register_def client_ip_def rate insert_api_key_def
        demo_db_def empty_db_def demo_key_def revoked_key_def new_key_row_def Let_def)
  have kept2: "recent a_minute_later
                 (two_attempts(''203.0.113.7'' \<mapsto> [1751324000, 1751325000, 1751326200]))
                 ''203.0.113.7'' = [1751324000, 1751325000, 1751326200]"
    by (simp add: recent_def a_minute_later_def REGISTRATION_WINDOW_SECONDS_def)
  have second: "reg_result second_registration =
                  Inl (HTTPException 429 ''Too many registrations. Try again later.'')"
    using ok
    by (simp add: second_registration_def first register_def client_ip_def
        check_registration_rate_def kept2 MAX_REGISTRATIONS_PER_IP_def Let_def)
  show ?thesis
    by (simp add: second) (simp add: first new_key_row_def)
qed

text \<open>
  Claim C7 (duplicate registration), amended. A registration for an email that an
  active key row carries never succeeds and never changes the store, so the row of the
  first key is as it was and the authorization gate answers its token as before. The
  request is answered with status 409 when it passes the two earlier checks of the
  handler; when the email does not match \<open>EMAIL_RE\<close> it is answered with status 400, and
  when the source address is at its hourly cap with status 429.
\<close>

theorem register_duplicate_email_refused:
  assumes "\<exists>r \<in> set (api_keys d). customer_email r = Some email \<and> subscription_status r = ''active''"
  shows "reg_db (register clk token att d email client_host) = d
         \<and> get_auth (reg_db (register clk token att d email client_host)) clk' x = get_auth d clk' x
         \<and> reg_result (register clk token att d email client_host) =
             (if \<not> re_match EMAIL_RE email then
                Inl (HTTPException 400 ''Invalid email format'')
              else if MAX_REGISTRATIONS_PER_IP \<le> length (recent clk att (client_ip client_host)) then
                Inl (HTTPException 429 ''Too many registrations. Try again later.'')
              else
                Inl (HTTPException 409
                  ''An API key already exists for this email. Contact support if you need a new key.''))"
proof -
  let ?out = "register clk token att d email client_host"
  have ex: "find (\<lambda>r. customer_email r = Some email \<and> subscription_status r = ''active'')
              (api_keys d) \<noteq> None"
    using assms by (simp only: find_active_email)
  consider (invalid) "\<not> re_match EMAIL_RE email"
    | (capped) "re_match EMAIL_RE email"
        "MAX_REGISTRATIONS_PER_IP \<le> length (recent clk att (client_ip client_host))"
    | (reached) "re_match EMAIL_RE email"
        "length (recent clk att (client_ip client_host)) < MAX_REGISTRATIONS_PER_IP"
    by fastforce
  then have "reg_db ?out = d \<and> reg_result ?out =
             (if \<not> re_match EMAIL_RE email then
                Inl (HTTPException 400 ''Invalid email format'')
              else if MAX_REGISTRATIONS_PER_IP \<le> length (recent clk att (client_ip client_host)) then
                Inl (HTTPException 429 ''Too many registrations. Try again later.'')
              else
                Inl (HTTPException 409
                  ''An API key already exists for this email. Contact support if you need a new key.''))"
  proof cases
    case invalid
    then show ?thesis
      by (simp add: register_def)
  next
    case capped
    then show ?thesis
      using check_registration_rate_at_cap [OF capped(2)]
      by (simp add: register_def Let_def)
  next
    case reached
    then show ?thesis
      using ex check_registration_rate_below_cap [OF reached(2)]
      by (simp add: register_def Let_def)
  qed
  then show ?thesis
    by simp
qed

theorem register_duplicate_email_refused_witness:
  "re_match EMAIL_RE ''demo@example.com''
   \<and> length (recent utc_host two_attempts (client_ip (Some ''203.0.113.7''))) = 2
   \<and> customer_email (hd (api_keys demo_db)) = Some ''demo@example.com''
   \<and> subscription_status (hd (api_keys demo_db)) = ''active''
   \<and> reg_result (register utc_host ''Zm9v'' two_attempts demo_db ''demo@example.com'' (Some ''203.0.113.7'')) =
       Inl (HTTPException 409
         ''An API key already exists for this email. Contact support if you need a new key.'')
   \<and> reg_db (register utc_host ''Zm9v'' two_attempts demo_db ''demo@example.com'' (Some ''203.0.113.7'')) =
       demo_db"
proof -
  have keys: "api_keys demo_db = [demo_key, revoked_key]"
    by (simp add: demo_db_def empty_db_def)
  have ok: "re_match EMAIL_RE ''demo@example.com''"
    by code_simp
  have two: "length (recent utc_host two_attempts (client_ip (Some ''203.0.113.7''))) = 2"
    by (simp add: recent_def two_attempts_def client_ip_def utc_host_def
        REGISTRATION_WINDOW_SECONDS_def)
  have first: "customer_email (hd (api_keys demo_db)) = Some ''demo@example.com''"
    "subscription_status (hd (api_keys demo_db)) = ''active''"
    by (simp_all add: keys demo_key_def)
  have dup: "\<exists>r \<in> set (api_keys demo_db).
               customer_email r = Some ''demo@example.com'' \<and> subscription_status r = ''active''"
    by (simp add: keys demo_key_def)
  show ?thesis
    using ok two first
      register_duplicate_email_refused
        [OF dup, of utc_host "''Zm9v''" two_attempts "Some ''203.0.113.7''"]
    by (simp add: MAX_REGISTRATIONS_PER_IP_def)
qed

text \<open>
  Claim C10 (the slot is taken before the duplicate check). For a registration with a
  matching email from an address below its cap, the time of the request is appended to
  the window of the address whatever the store then answers, so the window counts one
  more registration: also when the request ends with status 409 because an active key
  carries the email, and when it ends with status 500 because the insert violated the
  uniqueness of the token.
\<close>

theorem register_consumes_slot_before_duplicate_check:
  assumes "re_match EMAIL_RE email"
    and "length (recent clk att (client_ip client_host)) < MAX_REGISTRATIONS_PER_IP"
  shows "reg_attempts (register clk token att d email client_host) =
           att(client_ip client_host \<mapsto> recent clk att (client_ip client_host) @ [time_time clk])
         \<and> length (recent clk (reg_attempts (register clk token att d email client_host))
                     (client_ip client_host)) =
             length (recent clk att (client_ip client_host)) + 1
         \<and> ((\<exists>r \<in> set (api_keys d). customer_email r = Some email \<and> subscription_status r = ''active'') \<longrightarrow>
              reg_result (register clk token att d email client_host) =
                Inl (HTTPException 409
                  ''An API key already exists for this email. Contact support if you need a new key.''))
         \<and> (\<not> (\<exists>r \<in> set (api_keys d). customer_email r = Some email \<and> subscription_status r = ''active'')
              \<and> ''sk_'' @ token \<in> set (map api_key (api_keys d)) \<longrightarrow>
              reg_result (register clk token att d email client_host) =
                Inl (HTTPException 500 ''Registration failed. Please try again.''))"
proof -
  let ?ip = "client_ip client_host"
  let ?att' = "att(?ip \<mapsto> recent clk att ?ip @ [time_time clk])"
  let ?out = "register clk token att d email client_host"
  have rate: "check_registration_rate clk att ?ip = (True, ?att')"
    by (rule check_registration_rate_below_cap [OF assms(2)])
  have slot: "reg_attempts ?out = ?att'"
    using assms(1) rate
    by (simp add: register_def Let_def split: sum.splits)
  have "recent clk ?att' ?ip = recent clk att ?ip @ [time_time clk]"
    using recent_after_append [of clk att ?ip] by (simp add: recent_def)
  then have count: "length (recent clk (reg_attempts ?out) ?ip) = length (recent clk att ?ip) + 1"
    by (simp add: slot)
  have conflict: "reg_result ?out = Inl (HTTPException 409
      ''An API key already exists for this email. Contact support if you need a new key.'')"
    if "\<exists>r \<in> set (api_keys d). customer_email r = Some email \<and> subscription_status r = ''active''"
  proof -
    from that have "find (\<lambda>r. customer_email r = Some email \<and> subscription_status r = ''active'')
              (api_keys d) \<noteq> None"
      by (simp only: find_active_email)
    then show ?thesis
      using assms(1) rate by (simp add: register_def Let_def)
  qed
  have failure: "reg_result ?out = Inl (HTTPException 500 ''Registration failed. Please try again.'')"
    if "\<not> (\<exists>r \<in> set (api_keys d). customer_email r = Some email \<and> subscription_status r = ''active'')"
      and "''sk_'' @ token \<in> set (map api_key (api_keys d))"
  proof -
    from that(1) have "find (\<lambda>r. customer_email r = Some email \<and> subscription_status r = ''active'')
              (api_keys d) = None"
      using find_active_email [of email "api_keys d"] by blast
    then show ?thesis
      using assms(1) rate that(2)
      by (simp add: register_def Let_def insert_api_key_def new_key_row_def)
  qed
  show ?thesis
    using slot count conflict failure by blast
qed

theorem register_consumes_slot_before_duplicate_check_witness:
  "re_match EMAIL_RE ''demo@example.com''
   \<and> length (recent utc_host two_attempts (client_ip (Some ''203.0.113.7''))) = 2
   \<and> reg_result (register utc_host ''Zm9v'' two_attempts demo_db ''demo@example.com'' (Some ''203.0.113.7'')) =
       Inl (HTTPException 409
         ''An API key already exists for this email. Contact support if you need a new key.'')
   \<and> reg_attempts (register utc_host ''Zm9v'' two_attempts demo_db ''demo@example.com'' (Some ''203.0.113.7''))
         ''203.0.113.7'' = Some [1751324000, 1751325000, 1751326200]
   \<and> length (recent utc_host
         (reg_attempts (register utc_host ''Zm9v'' two_attempts demo_db ''demo@example.com'' (Some ''203.0.113.7'')))
         (client_ip (Some ''203.0.113.7''))) = 3"
proof -
  let ?out = "register utc_host ''Zm9v'' two_attempts demo_db ''demo@example.com'' (Some ''203.0.113.7'')"
  have keys: "api_keys demo_db = [demo_key, revoked_key]"
    by (simp add: demo_db_def empty_db_def)
  have ok: "re_match EMAIL_RE ''demo@example.com''"
    by code_simp
  have cip: "client_ip (Some ''203.0.113.7'') = ''203.0.113.7''"
    by (simp add: client_ip_def)
  have kept: "recent utc_host two_attempts ''203.0.113.7'' = [1751324000, 1751325000]"
    by (simp add: recent_def two_attempts_def utc_host_def REGISTRATION_WINDOW_SECONDS_def)
  have below: "length (recent utc_host two_attempts (client_ip (Some ''203.0.113.7'')))
                 < MAX_REGISTRATIONS_PER_IP"
    by (simp add: cip kept MAX_REGISTRATIONS_PER_IP_def)
  have dup: "\<exists>r \<in> set (api_keys demo_db).
               customer_email r = Some ''demo@example.com'' \<and> subscription_status r = ''active''"
    by (simp add: keys demo_key_def)
  have now: "time_time utc_host = 1751326200"
    by (simp add: utc_host_def)
  note th = register_consumes_slot_before_duplicate_check [OF ok below, of "''Zm9v''" demo_db]
  have "reg_attempts ?out = two_attempts(client_ip (Some ''203.0.113.7'') \<mapsto>
          recent utc_host two_attempts (client_ip (Some ''203.0.113.7'')) @ [time_time utc_host])"
    by (rule th [THEN conjunct1])
  then have slot: "reg_attempts ?out ''203.0.113.7'' = Some [1751324000, 1751325000, 1751326200]"
    by (simp add: cip kept now)
  have "length (recent utc_host (reg_attempts ?out) (client_ip (Some ''203.0.113.7''))) =
          length (recent utc_host two_attempts (client_ip (Some ''203.0.113.7''))) + 1"
    by (rule th [THEN conjunct2, THEN conjunct1])
  then have count: "length (recent utc_host (reg_attempts ?out) (client_ip (Some ''203.0.113.7''))) = 3"
    by (simp only: cip kept) simp
  from th dup have res: "reg_result ?out = Inl (HTTPException 409
         ''An API key already exists for this email. Contact support if you need a new key.'')"
    by blast
  have two: "length (recent utc_host two_attempts (client_ip (Some ''203.0.113.7''))) = 2"
    by (simp add: cip kept)
  show ?thesis
    using ok two res slot count by blast
qed

text \<open>
  After that third registration of the hour the address is at its cap: the next
  registration from it is refused with status 429 before the store is asked.
\<close>

lemma register_at_cap:
  assumes "re_match EMAIL_RE email"
    and "MAX_REGISTRATIONS_PER_IP \<le> length (recent clk att (client_ip client_host))"
  shows "reg_result (register clk token att d email client_host) =
           Inl (HTTPException 429 ''Too many registrations. Try again later.'')
         \<and> reg_db (register clk token att d email client_host) = d
         \<and> reg_trace (register clk token att d email client_host) = []"
  using assms(1) check_registration_rate_at_cap [OF assms(2)]
  by (simp add: register_def Let_def)

section \<open>Properties of the webhook ingestor\<close>

text \<open>
  Claim C4 (invalid signature). With the provider's secrets configured, an event whose
  signature the SDK does not verify is answered with status 400 \<open>Invalid signature\<close>
  by the handler of the main service and by the handler of the payment microservice,
  a request without a signature header with status 400 by both, and so is an event for
  which the SDK raises \<open>ValueError\<close>; in each case no statement has been executed on the
  store and the store is as it was: no key row and no subscription row has been
  inserted.
\<close>

theorem webhook_invalid_signature_rejected_before_mutation:
  assumes "truthy (STRIPE_SECRET_KEY env)"
    and "STRIPE_WEBHOOK_SECRET env = Some secret" and "secret \<noteq> []"
  shows "(stripe_signature request = Some sig_header \<and> sig_header \<noteq> [] \<and>
          verify (body request) sig_header secret = SignatureVerificationError \<longrightarrow>
            stripe_webhook env verify token1 token2 d request =
              \<lparr>wh_result = Inl (HTTPException 400 ''Invalid signature''), wh_db = d, wh_trace = []\<rparr>
            \<and> stripe_api_webhook env verify clk d request =
              \<lparr>wh_result = Inl (HTTPException 400 ''Invalid signature''), wh_db = d, wh_trace = []\<rparr>)
       \<and> (\<not> truthy (stripe_signature request) \<longrightarrow>
            stripe_webhook env verify token1 token2 d request =
              \<lparr>wh_result = Inl (HTTPException 400 ''Missing signature''), wh_db = d, wh_trace = []\<rparr>
            \<and> stripe_api_webhook env verify clk d request =
              \<lparr>wh_result = Inl (HTTPException 400 ''Missing Stripe-Signature header''),
               wh_db = d, wh_trace = []\<rparr>)
       \<and> (stripe_signature request = Some sig_header \<and> sig_header \<noteq> [] \<and>
          verify (body request) sig_header secret = ValueError \<longrightarrow>
            stripe_webhook env verify token1 token2 d request =
              \<lparr>wh_result = Inl (HTTPException 400 ''Invalid payload''), wh_db = d, wh_trace = []\<rparr>
            \<and> stripe_api_webhook env verify clk d request =
              \<lparr>wh_result = Inl (HTTPException 400 ''Invalid payload''), wh_db = d, wh_trace = []\<rparr>)"
proof -
  have missing: "stripe_signature request = None \<or> stripe_signature request = Some []"
    if "\<not> truthy (stripe_signature request)"
    using that by (cases "stripe_signature request") auto
  show ?thesis
    using assms missing
    by (auto simp: stripe_webhook_def stripe_api_webhook_def rejected_def environ_get_def)
qed

theorem webhook_invalid_signature_rejected_before_mutation_witness:
  "demo_verify (body forged_request) ''t=1,v1=forged'' ''whsec_test'' = SignatureVerificationError
   \<and> stripe_webhook demo_env demo_verify ''AAAA'' ''BBBB'' demo_db forged_request =
       \<lparr>wh_result = Inl (HTTPException 400 ''Invalid signature''), wh_db = demo_db, wh_trace = []\<rparr>
   \<and> stripe_api_webhook demo_env demo_verify utc_host demo_db forged_request =
       \<lparr>wh_result = Inl (HTTPException 400 ''Invalid signature''), wh_db = demo_db, wh_trace = []\<rparr>
   \<and> wh_result (stripe_webhook demo_env demo_verify ''AAAA'' ''BBBB'' demo_db signed_request) =
       Inr ''received''"
proof -
  have cfg: "truthy (STRIPE_SECRET_KEY demo_env)" "STRIPE_WEBHOOK_SECRET demo_env = Some ''whsec_test''"
    by (simp_all add: demo_env_def)
  have sec: "''whsec_test'' \<noteq> []"
    by simp
  have hdr: "stripe_signature forged_request = Some ''t=1,v1=forged''" "''t=1,v1=forged'' \<noteq> []"
    by (simp_all add: forged_request_def)
  have bad: "demo_verify (body forged_request) ''t=1,v1=forged'' ''whsec_test'' = SignatureVerificationError"
    by (simp add: demo_verify_def)
  have keys: "api_keys demo_db = [demo_key, revoked_key]"
    by (simp add: demo_db_def empty_db_def)
  have good: "wh_result (stripe_webhook demo_env demo_verify ''AAAA'' ''BBBB'' demo_db signed_request) =
       Inr ''received''"
    by (simp add: stripe_webhook_def demo_env_def signed_request_def demo_verify_def
        checkout_event_def checkout_completed_def select_price_id_def environ_get_def
        tier_of_price_def price_to_tier_def limit_of_tier_def limits_def provision_key_def
        insert_api_key_def new_key_row_def keys demo_key_def revoked_key_def Let_def)
  show ?thesis
    using hdr bad good
      webhook_invalid_signature_rejected_before_mutation
        [OF cfg(1) cfg(2) sec, of forged_request "''t=1,v1=forged''" demo_verify "''AAAA''" "''BBBB''"
           demo_db utc_host]
    by simp
qed

text \<open>
  The provisioning retries once. When the first token is free its row is inserted; when
  it collides and the second is free the second row is inserted; when both collide the
  \<open>IntegrityError\<close> of the second insert is the result and the store is as it was.
\<close>

lemma provision_key_first:
  assumes "''sk_'' @ token1 \<notin> set (map api_key (api_keys d))"
  shows "provision_key d token1 token2 t e dl =
           (Inr (), d\<lparr>api_keys := api_keys d @ [new_key_row (''sk_'' @ token1) t e dl (dl * 30)]\<rparr>,
            [Connect, InsertApiKey (new_key_row (''sk_'' @ token1) t e dl (dl * 30)), Commit])"
  using assms by (simp add: provision_key_def insert_api_key_def new_key_row_def Let_def)

lemma provision_key_retry:
  assumes "''sk_'' @ token1 \<in> set (map api_key (api_keys d))"
    and "''sk_'' @ token2 \<notin> set (map api_key (api_keys d))"
  shows "provision_key d token1 token2 t e dl =
           (Inr (), d\<lparr>api_keys := api_keys d @ [new_key_row (''sk_'' @ token2) t e dl (dl * 30)]\<rparr>,
            [Connect, InsertApiKey (new_key_row (''sk_'' @ token1) t e dl (dl * 30)),
             InsertApiKey (new_key_row (''sk_'' @ token2) t e dl (dl * 30)), Commit])"
  using assms by (simp add: provision_key_def insert_api_key_def new_key_row_def Let_def)

lemma provision_key_both_collide:
  assumes "''sk_'' @ token1 \<in> set (map api_key (api_keys d))"
    and "''sk_'' @ token2 \<in> set (map api_key (api_keys d))"
  shows "provision_key d token1 token2 t e dl =
           (Inl IntegrityError, d,
            [Connect, InsertApiKey (new_key_row (''sk_'' @ token1) t e dl (dl * 30)),
             InsertApiKey (new_key_row (''sk_'' @ token2) t e dl (dl * 30))])"
  using assms by (simp add: provision_key_def insert_api_key_def new_key_row_def Let_def)

text \<open>
  The handler of the payment microservice answers \<open>received\<close> for every event the SDK
  verifies, whatever the store does with its update.
\<close>

lemma stripe_api_webhook_acknowledges:
  assumes "stripe_signature request = Some sig_header" and "sig_header \<noteq> []"
    and "verify (body request) sig_header (environ_get (STRIPE_WEBHOOK_SECRET env) ''whsec_placeholder'')
           = Event ev"
  shows "wh_result (stripe_api_webhook env verify clk d request) = Inr ''received''"
  using assms by (simp add: stripe_api_webhook_def)

text \<open>
  Claim C3 (collision on the minted key), evaluated where the code departs from it: a
  verified checkout event arrives while the store holds both tokens the generator
  returns. The handler inserts with the first token, retries once with the second, and
  the \<open>IntegrityError\<close> of the retry leaves the handler: the sender is answered with
  status 500, not with \<open>received\<close>. The store is unchanged.
\<close>

theorem stripe_webhook_second_collision_not_acknowledged:
  "demo_verify (body signed_request) ''t=1,v1=good'' ''whsec_test'' = Event checkout_event
   \<and> wh_result (stripe_webhook demo_env demo_verify ''AAAA'' ''BBBB'' colliding_db signed_request) =
       Inl IntegrityError
   \<and> http_status (wh_result (stripe_webhook demo_env demo_verify ''AAAA'' ''BBBB'' colliding_db signed_request)) =
       500
   \<and> wh_db (stripe_webhook demo_env demo_verify ''AAAA'' ''BBBB'' colliding_db signed_request) =
       colliding_db
   \<and> wh_trace (stripe_webhook demo_env demo_verify ''AAAA'' ''BBBB'' colliding_db signed_request) =
       [Connect, InsertApiKey (new_key_row ''sk_AAAA'' ''basic'' (Some ''test@example.com'') 1000 30000),
        InsertApiKey (new_key_row ''sk_BBBB'' ''basic'' (Some ''test@example.com'') 1000 30000)]"
proof -
  have keys: "map api_key (api_keys colliding_db) = [''sk_AAAA'', ''sk_BBBB'']"
    by (simp add: colliding_db_def empty_db_def new_key_row_def)
  have prov: "provision_key colliding_db ''AAAA'' ''BBBB'' ''basic'' (Some ''test@example.com'') 1000 =
      (Inl IntegrityError, colliding_db,
       [Connect, InsertApiKey (new_key_row ''sk_AAAA'' ''basic'' (Some ''test@example.com'') 1000 30000),
        InsertApiKey (new_key_row ''sk_BBBB'' ''basic'' (Some ''test@example.com'') 1000 30000)])"
    using provision_key_both_collide
      [of "''AAAA''" colliding_db "''BBBB''" "''basic''" "Some ''test@example.com''" 1000]
    by (simp add: keys)
  have tier: "tier_of_price demo_env (Some ''price_1SzPt7LnWY7IoSqm5YXJEHwy'') = ''basic''"
    by (simp add: tier_of_price_def price_to_tier_def demo_env_def environ_get_def)
  have limit: "limit_of_tier ''basic'' = 1000"
    by (simp add: limit_of_tier_def limits_def)
  have out: "stripe_webhook demo_env demo_verify ''AAAA'' ''BBBB'' colliding_db signed_request =
      \<lparr>wh_result = Inl IntegrityError, wh_db = colliding_db,
       wh_trace = [Connect,
         InsertApiKey (new_key_row ''sk_AAAA'' ''basic'' (Some ''test@example.com'') 1000 30000),
         InsertApiKey (new_key_row ''sk_BBBB'' ''basic'' (Some ''test@example.com'') 1000 30000)]\<rparr>"
    by (simp add: stripe_webhook_def demo_env_def signed_request_def demo_verify_def
        checkout_event_def checkout_completed_def select_price_id_def environ_get_def
        tier [unfolded demo_env_def] limit prov [unfolded demo_env_def] Let_def)
  show ?thesis
    by (simp add: out) (simp add: demo_verify_def signed_request_def)
qed

theorem stripe_webhook_second_collision_not_acknowledged_witness:
  "wh_result (stripe_webhook demo_env demo_verify ''AAAA'' ''BBBB'' colliding_db signed_request) \<noteq>
     Inr ''received''
   \<and> api_keys (wh_db (stripe_webhook demo_env demo_verify ''AAAA'' ''BBBB'' colliding_db signed_request)) =
       api_keys colliding_db"
  using stripe_webhook_second_collision_not_acknowledged by simp

section \<open>Properties of the revenue ledger\<close>

lemma non_null_map_Some:
  "non_null (map (\<lambda>r. Some (f r)) rows) = map f rows"
  by (induction rows) simp_all

lemma sum_list_non_null:
  "sum_list (non_null xs) = (\<Sum>x\<leftarrow>xs. case x of None \<Rightarrow> 0 | Some v \<Rightarrow> (v::real))"
  by (induction xs rule: non_null.induct) simp_all

lemma COALESCE_SUM:
  "sql_COALESCE (sql_SUM xs) 0 = sum_list (non_null xs)"
  by (simp add: sql_COALESCE_def sql_SUM_def)

lemma COALESCE_AVG:
  "sql_COALESCE (sql_AVG xs) 0 =
     (if non_null xs = [] then 0 else sum_list (non_null xs) / real (length (non_null xs)))"
  by (simp add: sql_COALESCE_def sql_AVG_def)

lemma create_revenue_stream_rows:
  assumes "create_revenue_stream d0 clk0 key0 stream = (Inr sid, d1)"
  shows "\<exists>row. revenue_streams d1 = revenue_streams d0 @ [row]
           \<and> monthly_revenue row = Some (s_monthly_revenue stream)
           \<and> potential_monthly row = s_potential_monthly stream
           \<and> growth_rate row = Some (s_growth_rate stream)"
  using assms
  by (auto simp: create_revenue_stream_def Let_def split: sum.splits if_splits)

text \<open>
  Claim C5 (revenue summary). For an authorized request the summary holds the number
  of streams, the sum of the monthly values (a NULL counts as nothing), the sum of the
  potential values, the mean of the growth rates that are not NULL (zero when there is
  none) and, as the gap, the potential sum minus the monthly sum. With no stream every
  figure is zero. For a store whose only stream was created with monthly revenue 500,
  potential 5000 and growth rate 10.5 the gap is 4500 and the average growth rate 10.5.
\<close>

theorem revenue_summary_figures:
  assumes "get_auth d clk x_api_key = Inr auth"
  shows "\<exists>s. get_revenue_summary d clk x_api_key = Inr s
     \<and> total_streams s = int (length (revenue_streams d))
     \<and> total_monthly_revenue s =
         (\<Sum>r\<leftarrow>revenue_streams d. case monthly_revenue r of None \<Rightarrow> 0 | Some v \<Rightarrow> v)
     \<and> total_potential_revenue s = (\<Sum>r\<leftarrow>revenue_streams d. potential_monthly r)
     \<and> avg_growth_rate s =
         (if non_null (map growth_rate (revenue_streams d)) = [] then 0
          else sum_list (non_null (map growth_rate (revenue_streams d)))
                 / real (length (non_null (map growth_rate (revenue_streams d)))))
     \<and> revenue_gap s = total_potential_revenue s - total_monthly_revenue s
     \<and> (revenue_streams d = [] \<longrightarrow>
          s = \<lparr>total_streams = 0, total_monthly_revenue = 0, total_potential_revenue = 0,
               avg_growth_rate = 0, revenue_gap = 0\<rparr>)
     \<and> (\<forall>d0 clk0 key0 stream sid d1.
          revenue_streams d0 = [] \<and>
          create_revenue_stream d0 clk0 key0 stream = (Inr sid, d1) \<and>
          revenue_streams d = revenue_streams d1 \<and>
          s_monthly_revenue stream = 500 \<and> s_potential_monthly stream = 5000 \<and>
          s_growth_rate stream = 10.5 \<longrightarrow>
            total_streams s = 1 \<and> revenue_gap s = 4500 \<and> avg_growth_rate s = 10.5)"
proof -
  let ?rows = "revenue_streams d"
  let ?m = "sum_list (non_null (map monthly_revenue ?rows))"
  let ?p = "sum_list (map potential_monthly ?rows)"
  let ?g = "if non_null (map growth_rate ?rows) = [] then 0
            else sum_list (non_null (map growth_rate ?rows))
                   / real (length (non_null (map growth_rate ?rows)))"
  let ?s = "\<lparr>total_streams = int (length ?rows), total_monthly_revenue = ?m,
             total_potential_revenue = ?p, avg_growth_rate = ?g, revenue_gap = ?p - ?m\<rparr>"
  have res: "get_revenue_summary d clk x_api_key = Inr ?s"
    using assms
    by (simp add: get_revenue_summary_def Let_def COALESCE_SUM COALESCE_AVG non_null_map_Some)
  have monthly: "?m = (\<Sum>r\<leftarrow>?rows. case monthly_revenue r of None \<Rightarrow> 0 | Some v \<Rightarrow> v)"
    by (simp add: sum_list_non_null comp_def)
  have single: "total_streams ?s = 1 \<and> revenue_gap ?s = 4500 \<and> avg_growth_rate ?s = 10.5"
    if "revenue_streams d0 = []"
      and "create_revenue_stream d0 clk0 key0 stream = (Inr sid, d1)"
      and "?rows = revenue_streams d1"
      and "s_monthly_revenue stream = 500" and "s_potential_monthly stream = 5000"
      and "s_growth_rate stream = 10.5"
    for d0 clk0 key0 stream sid d1
  proof -
    from create_revenue_stream_rows [OF that(2)] that(1) that(3) obtain row where
      rows: "?rows = [row]" and "monthly_revenue row = Some (s_monthly_revenue stream)"
      and "potential_monthly row = s_potential_monthly stream"
      and "growth_rate row = Some (s_growth_rate stream)"
      by auto
    with that(4-6) show ?thesis
      by simp
  qed
  have empty: "?s = \<lparr>total_streams = 0, total_monthly_revenue = 0, total_potential_revenue = 0,
                      avg_growth_rate = 0, revenue_gap = 0\<rparr>" if "?rows = []"
    using that by simp
  show ?thesis
  proof (intro exI conjI)
    show "get_revenue_summary d clk x_api_key = Inr ?s" by (rule res)
    show "total_monthly_revenue ?s =
            (\<Sum>r\<leftarrow>?rows. case monthly_revenue r of None \<Rightarrow> 0 | Some v \<Rightarrow> v)"
      using monthly by simp
    show "?rows = [] \<longrightarrow> ?s = \<lparr>total_streams = 0, total_monthly_revenue = 0,
            total_potential_revenue = 0, avg_growth_rate = 0, revenue_gap = 0\<rparr>"
      using empty by blast
    show "\<forall>d0 clk0 key0 stream sid d1.
          revenue_streams d0 = [] \<and>
          create_revenue_stream d0 clk0 key0 stream = (Inr sid, d1) \<and>
          ?rows = revenue_streams d1 \<and>
          s_monthly_revenue stream = 500 \<and> s_potential_monthly stream = 5000 \<and>
          s_growth_rate stream = 10.5 \<longrightarrow>
            total_streams ?s = 1 \<and> revenue_gap ?s = 4500 \<and> avg_growth_rate ?s = 10.5"
      using single by blast
  qed simp_all
qed

lemma demo_db_tables:
  "api_keys demo_db = [demo_key, revoked_key]" "api_usage_log demo_db = []"
  "revenue_streams demo_db = []"
  by (simp_all add: demo_db_def empty_db_def)

lemma demo_key_authorized:
  "get_auth demo_db utc_host (Some ''demo-free-key'') =
     Inr \<lparr>ki_tier = ''free'', ki_name = Some ''demo@example.com'', ki_daily_limit = Some 2\<rparr>"
  by (simp add: get_auth_def get_key_info_def check_rate_limit_def usage_count_def
      demo_db_tables demo_key_def)

lemma demo_stream_created:
  "create_revenue_stream demo_db utc_host (Some ''demo-free-key'') demo_stream =
     (Inr 1, demo_db\<lparr>revenue_streams :=
        [\<lparr>stream_id = 1, name = ''AIDAN Brain API'', category = ''api'',
          monthly_revenue = Some 500, potential_monthly = 5000, growth_rate = Some 10.5,
          stream_notes = Some ''AI memory and knowledge search API'',
          rs_created_at = CURRENT_TIMESTAMP utc_host,
          updated_at = CURRENT_TIMESTAMP utc_host\<rparr>]\<rparr>)"
  by (simp add: create_revenue_stream_def demo_key_authorized demo_stream_def
      VALID_CATEGORIES_def lastrowid_def demo_db_tables html_escape_def escape_char_def Let_def)

lemma one_stream_db_tables:
  "api_keys one_stream_db = [demo_key, revoked_key]"
  "api_usage_log one_stream_db =
     [\<lparr>ul_api_key = ''demo-free-key'', endpoint = ''/revenue/streams'', response_time_ms = 3,
       status_code = 200, created_at = CURRENT_TIMESTAMP utc_host\<rparr>]"
  "revenue_streams one_stream_db =
     [\<lparr>stream_id = 1, name = ''AIDAN Brain API'', category = ''api'',
       monthly_revenue = Some 500, potential_monthly = 5000, growth_rate = Some 10.5,
       stream_notes = Some ''AI memory and knowledge search API'',
       rs_created_at = CURRENT_TIMESTAMP utc_host,
       updated_at = CURRENT_TIMESTAMP utc_host\<rparr>]"
  by (simp_all add: one_stream_db_def demo_stream_created log_api_usage_def demo_db_tables)

lemma one_stream_db_authorized:
  "get_auth one_stream_db clk (Some ''demo-free-key'') =
     Inr \<lparr>ki_tier = ''free'', ki_name = Some ''demo@example.com'', ki_daily_limit = Some 2\<rparr>"
  by (simp add: get_auth_def get_key_info_def check_rate_limit_def usage_count_def
      one_stream_db_tables demo_key_def Let_def)

theorem revenue_summary_figures_witness:
  "(\<exists>s. get_revenue_summary one_stream_db utc_host (Some ''demo-free-key'') = Inr s
        \<and> total_streams s = 1 \<and> revenue_gap s = 4500 \<and> avg_growth_rate s = 10.5)
   \<and> get_revenue_summary demo_db utc_host (Some ''demo-free-key'') =
       Inr \<lparr>total_streams = 0, total_monthly_revenue = 0, total_potential_revenue = 0,
            avg_growth_rate = 0, revenue_gap = 0\<rparr>"
proof -
  let ?key = "Some ''demo-free-key''"
  from revenue_summary_figures [OF one_stream_db_authorized, of utc_host]
  obtain s where
    s: "get_revenue_summary one_stream_db utc_host ?key = Inr s"
    and single: "\<forall>d0 clk0 key0 stream sid d1.
          revenue_streams d0 = [] \<and>
          create_revenue_stream d0 clk0 key0 stream = (Inr sid, d1) \<and>
          revenue_streams one_stream_db = revenue_streams d1 \<and>
          s_monthly_revenue stream = 500 \<and> s_potential_monthly stream = 5000 \<and>
          s_growth_rate stream = 10.5 \<longrightarrow>
            total_streams s = 1 \<and> revenue_gap s = 4500 \<and> avg_growth_rate s = 10.5"
    by blast
  let ?d1 = "snd (create_revenue_stream demo_db utc_host ?key demo_stream)"
  have created: "create_revenue_stream demo_db utc_host ?key demo_stream = (Inr 1, ?d1)"
    by (simp add: demo_stream_created)
  have same: "revenue_streams one_stream_db = revenue_streams ?d1"
    by (simp add: one_stream_db_tables demo_stream_created)
  have vals: "s_monthly_revenue demo_stream = 500" "s_potential_monthly demo_stream = 5000"
    "s_growth_rate demo_stream = 10.5"
    by (simp_all add: demo_stream_def)
  have "total_streams s = 1 \<and> revenue_gap s = 4500 \<and> avg_growth_rate s = 10.5"
  proof (rule single [rule_format, of demo_db utc_host ?key demo_stream 1 ?d1])
    show "revenue_streams demo_db = [] \<and>
          create_revenue_stream demo_db utc_host ?key demo_stream = (Inr 1, ?d1) \<and>
          revenue_streams one_stream_db = revenue_streams ?d1 \<and>
          s_monthly_revenue demo_stream = 500 \<and> s_potential_monthly demo_stream = 5000 \<and>
          s_growth_rate demo_stream = 10.5"
      using demo_db_tables(3) created same vals by blast
  qed
  with s have one: "\<exists>s. get_revenue_summary one_stream_db utc_host ?key = Inr s
        \<and> total_streams s = 1 \<and> revenue_gap s = 4500 \<and> avg_growth_rate s = 10.5"
    by blast
  from revenue_summary_figures [OF demo_key_authorized]
  have none: "get_revenue_summary demo_db utc_host ?key =
       Inr \<lparr>total_streams = 0, total_monthly_revenue = 0, total_potential_revenue = 0,
            avg_growth_rate = 0, revenue_gap = 0\<rparr>"
    using demo_db_tables(3) by auto
  show ?thesis
    using one none by blast
qed

text \<open>
  The claim about a partial update (C6), as it is stated, fails on the column
  \<open>updated_at\<close>. The stream created on 30 June is updated the next morning with a
  request that supplies the growth rate only: the update succeeds, and the stored row is
  not the row of before with a new growth rate, because its \<open>updated_at\<close>, which the
  request did not supply, has changed from the time of the creation to the time of the
  update.
\<close>

theorem update_only_growth_rate_stamps_updated_at_counterexample:
  "u_monthly_revenue only_growth_rate = None
   \<and> u_potential_monthly only_growth_rate = None
   \<and> u_notes only_growth_rate = None
   \<and> u_growth_rate only_growth_rate = Some 12
   \<and> fst (update_revenue_stream one_stream_db next_day (Some ''demo-free-key'') 1 only_growth_rate) =
       Inr ''Revenue stream updated successfully''
   \<and> updated_at (hd (revenue_streams one_stream_db)) =
       \<lparr>ts_date = ''2025-06-30'', ts_time = ''23:30:00''\<rparr>
   \<and> updated_at (hd (revenue_streams (snd
         (update_revenue_stream one_stream_db next_day (Some ''demo-free-key'') 1 only_growth_rate)))) =
       \<lparr>ts_date = ''2025-07-01'', ts_time = ''09:00:00''\<rparr>
   \<and> hd (revenue_streams (snd
         (update_revenue_stream one_stream_db next_day (Some ''demo-free-key'') 1 only_growth_rate))) \<noteq>
       (hd (revenue_streams one_stream_db))\<lparr>growth_rate := Some 12\<rparr>"
proof -
  have upd: "update_revenue_stream one_stream_db next_day (Some ''demo-free-key'') 1 only_growth_rate =
      (Inr ''Revenue stream updated successfully'',
       one_stream_db\<lparr>revenue_streams :=
          [\<lparr>stream_id = 1, name = ''AIDAN Brain API'', category = ''api'',
            monthly_revenue = Some 500, potential_monthly = 5000, growth_rate = Some 12,
            stream_notes = Some ''AI memory and knowledge search API'',
            rs_created_at = CURRENT_TIMESTAMP utc_host,
            updated_at = CURRENT_TIMESTAMP next_day\<rparr>]\<rparr>)"
    by (simp add: update_revenue_stream_def one_stream_db_authorized one_stream_db_tables
        apply_update_def only_growth_rate_def no_fields_def Let_def)
  have stamps: "CURRENT_TIMESTAMP utc_host = \<lparr>ts_date = ''2025-06-30'', ts_time = ''23:30:00''\<rparr>"
    "CURRENT_TIMESTAMP next_day = \<lparr>ts_date = ''2025-07-01'', ts_time = ''09:00:00''\<rparr>"
    by (simp_all add: utc_host_def next_day_def)
  show ?thesis
    by (simp add: upd one_stream_db_tables stamps) (simp add: only_growth_rate_def)
qed

text \<open>
  Claim C6 (partial update), amended. An authorized update that supplies at least one
  field, for an identifier some stream carries, succeeds, leaves every other table as it
  was, and relates each stored stream to its successor as follows: identifier, name,
  category and creation time are those of before; a stream with another identifier is
  unchanged; of the stream addressed, monthly revenue, potential, growth rate and notes
  are the supplied value where one is supplied (the notes escaped) and the value of
  before where none is, and \<open>updated_at\<close> is set to the time of the update. So an update
  that supplies only the growth rate leaves monthly revenue, potential, notes, name and
  category as they were and changes the growth rate and \<open>updated_at\<close>.
\<close>

theorem update_revenue_stream_frame:
  assumes "get_auth d clk x_api_key = Inr auth"
    and "\<not> no_fields u"
    and "\<exists>r \<in> set (revenue_streams d). stream_id r = sid"
  shows "\<exists>d'. update_revenue_stream d clk x_api_key sid u =
                 (Inr ''Revenue stream updated successfully'', d')
     \<and> d' = d\<lparr>revenue_streams := revenue_streams d'\<rparr>
     \<and> list_all2
         (\<lambda>r r'. stream_id r' = stream_id r \<and> name r' = name r \<and> category r' = category r
            \<and> rs_created_at r' = rs_created_at r
            \<and> (stream_id r \<noteq> sid \<longrightarrow> r' = r)
            \<and> monthly_revenue r' =
                (if stream_id r = sid \<and> u_monthly_revenue u \<noteq> None
                 then u_monthly_revenue u else monthly_revenue r)
            \<and> Some (potential_monthly r') =
                (if stream_id r = sid \<and> u_potential_monthly u \<noteq> None
                 then u_potential_monthly u else Some (potential_monthly r))
            \<and> growth_rate r' =
                (if stream_id r = sid \<and> u_growth_rate u \<noteq> None
                 then u_growth_rate u else growth_rate r)
            \<and> stream_notes r' =
                (if stream_id r = sid \<and> u_notes u \<noteq> None
                 then map_option html_escape (u_notes u) else stream_notes r)
            \<and> updated_at r' =
                (if stream_id r = sid then CURRENT_TIMESTAMP clk else updated_at r))
         (revenue_streams d) (revenue_streams d')"
proof -
  let ?rows = "revenue_streams d"
  let ?rows' = "map (\<lambda>r. if stream_id r = sid then apply_update clk u r else r) ?rows"
  let ?d' = "d\<lparr>revenue_streams := ?rows'\<rparr>"
  from assms(3) have "filter (\<lambda>r. stream_id r = sid) ?rows \<noteq> []"
    by (simp add: filter_empty_conv)
  then have res: "update_revenue_stream d clk x_api_key sid u =
                    (Inr ''Revenue stream updated successfully'', ?d')"
    using assms(1,2) by (simp add: update_revenue_stream_def Let_def)
  have frame: "?d' = d\<lparr>revenue_streams := revenue_streams ?d'\<rparr>"
    by simp
  have rel: "list_all2
         (\<lambda>r r'. stream_id r' = stream_id r \<and> name r' = name r \<and> category r' = category r
            \<and> rs_created_at r' = rs_created_at r
            \<and> (stream_id r \<noteq> sid \<longrightarrow> r' = r)
            \<and> monthly_revenue r' =
                (if stream_id r = sid \<and> u_monthly_revenue u \<noteq> None
                 then u_monthly_revenue u else monthly_revenue r)
            \<and> Some (potential_monthly r') =
                (if stream_id r = sid \<and> u_potential_monthly u \<noteq> None
                 then u_potential_monthly u else Some (potential_monthly r))
            \<and> growth_rate r' =
                (if stream_id r = sid \<and> u_growth_rate u \<noteq> None
                 then u_growth_rate u else growth_rate r)
            \<and> stream_notes r' =
                (if stream_id r = sid \<and> u_notes u \<noteq> None
                 then map_option html_escape (u_notes u) else stream_notes r)
            \<and> updated_at r' =
                (if stream_id r = sid then CURRENT_TIMESTAMP clk else updated_at r))
         ?rows (revenue_streams ?d')"
    by (auto simp: list_all2_map2 list_all2_same apply_update_def split: option.splits)
  show ?thesis
    using res frame rel by blast
qed

theorem update_revenue_stream_frame_witness:
  "\<not> no_fields only_growth_rate
   \<and> map stream_id (revenue_streams one_stream_db) = [1]
   \<and> update_revenue_stream one_stream_db next_day (Some ''demo-free-key'') 1 only_growth_rate =
       (Inr ''Revenue stream updated successfully'',
        one_stream_db\<lparr>revenue_streams :=
          [\<lparr>stream_id = 1, name = ''AIDAN Brain API'', category = ''api'',
            monthly_revenue = Some 500, potential_monthly = 5000, growth_rate = Some 12,
            stream_notes = Some ''AI memory and knowledge search API'',
            rs_created_at = CURRENT_TIMESTAMP utc_host,
            updated_at = CURRENT_TIMESTAMP next_day\<rparr>]\<rparr>)"
proof -
  have some: "\<not> no_fields only_growth_rate"
    by (simp add: no_fields_def only_growth_rate_def)
  have ids: "map stream_id (revenue_streams one_stream_db) = [1]"
    by (simp add: one_stream_db_tables)
  have ex: "\<exists>r \<in> set (revenue_streams one_stream_db). stream_id r = 1"
    by (simp add: one_stream_db_tables)
  from update_revenue_stream_frame [OF one_stream_db_authorized some ex, of next_day]
  obtain d' where
    res: "update_revenue_stream one_stream_db next_day (Some ''demo-free-key'') 1 only_growth_rate =
            (Inr ''Revenue stream updated successfully'', d')"
    and frame: "d' = one_stream_db\<lparr>revenue_streams := revenue_streams d'\<rparr>"
    and rel: "list_all2
         (\<lambda>r r'. stream_id r' = stream_id r \<and> name r' = name r \<and> category r' = category r
            \<and> rs_created_at r' = rs_created_at r
            \<and> (stream_id r \<noteq> 1 \<longrightarrow> r' = r)
            \<and> monthly_revenue r' =
                (if stream_id r = 1 \<and> u_monthly_revenue only_growth_rate \<noteq> None
                 then u_monthly_revenue only_growth_rate else monthly_revenue r)
            \<and> Some (potential_monthly r') =
                (if stream_id r = 1 \<and> u_potential_monthly only_growth_rate \<noteq> None
                 then u_potential_monthly only_growth_rate else Some (potential_monthly r))
            \<and> growth_rate r' =
                (if stream_id r = 1 \<and> u_growth_rate only_growth_rate \<noteq> None
                 then u_growth_rate only_growth_rate else growth_rate r)
            \<and> stream_notes r' =
                (if stream_id r = 1 \<and> u_notes only_growth_rate \<noteq> None
                 then map_option html_escape (u_notes only_growth_rate) else stream_notes r)
            \<and> updated_at r' =
                (if stream_id r = 1 then CURRENT_TIMESTAMP next_day else updated_at r))
         (revenue_streams one_stream_db) (revenue_streams d')"
    by blast
  from rel obtain r' where rows': "revenue_streams d' = [r']"
    and fields: "stream_id r' = 1" "name r' = ''AIDAN Brain API''" "category r' = ''api''"
      "rs_created_at r' = CURRENT_TIMESTAMP utc_host"
      "monthly_revenue r' = Some 500" "potential_monthly r' = 5000"
      "growth_rate r' = Some 12" "stream_notes r' = Some ''AI memory and knowledge search API''"
      "updated_at r' = CURRENT_TIMESTAMP next_day"
    by (auto simp: one_stream_db_tables only_growth_rate_def list_all2_Cons1)
  have "r' = \<lparr>stream_id = 1, name = ''AIDAN Brain API'', category = ''api'',
            monthly_revenue = Some 500, potential_monthly = 5000, growth_rate = Some 12,
            stream_notes = Some ''AI memory and knowledge search API'',
            rs_created_at = CURRENT_TIMESTAMP utc_host,
            updated_at = CURRENT_TIMESTAMP next_day\<rparr>"
    using fields by (cases r') simp
  with rows' frame res some ids show ?thesis
    by simp
qed

section \<open>Properties of the prediction-market listing\<close>

lemma set_sql_limit:
  "set (sql_limit n rows) \<subseteq> set rows"
  by (simp add: sql_limit_def set_take_subset)

lemma select_markets_active_only:
  assumes "r \<in> set (select_markets d True cat limit)"
  shows "active r = Some 1 \<and> r \<in> set (polymarket_markets d)"
proof -
  let ?act = "filter (\<lambda>r. active r = Some 1) (polymarket_markets d)"
  let ?rows2 = "if truthy cat then filter (\<lambda>r. pm_category r = cat) ?act else ?act"
  have "select_markets d True cat limit = sql_limit limit (rev (sort_key volume24h ?rows2))"
    by (simp add: select_markets_def Let_def)
  with assms have "r \<in> set (rev (sort_key volume24h ?rows2))"
    using set_sql_limit [of limit "rev (sort_key volume24h ?rows2)"] by auto
  then have "r \<in> set ?rows2"
    by simp
  then have "r \<in> set ?act"
    by (simp split: if_splits)
  then show ?thesis
    by simp
qed

text \<open>
  Claim C9 (listing with \<open>active_only\<close>). Whatever the limit and the category, every
  market that the service's listing and the standalone listing return with
  \<open>active_only\<close> set is a stored row whose active flag is 1; no row whose stored flag
  is 0 is among them.
\<close>

theorem active_only_lists_only_active:
  "(\<forall>m \<in> set (markets (get_markets loads empty_list empty_object d limit cat True)).
      active (mk_row m) = Some 1 \<and> mk_row m \<in> set (polymarket_markets d))
   \<and> (\<forall>l. get_polymarket_markets loads empty_list empty_object d clk x_api_key limit cat True = Inr l
        \<longrightarrow> (\<forall>m \<in> set (markets l).
               active (mk_row m) = Some 1 \<and> mk_row m \<in> set (polymarket_markets d)))"
proof (intro conjI allI impI ballI)
  fix m :: "'a market"
  assume "m \<in> set (markets (get_markets loads empty_list empty_object d limit cat True))"
  then obtain r where "r \<in> set (select_markets d True cat limit)" and "mk_row m = r"
    by (auto simp: get_markets_def Let_def to_market_def)
  then show "active (mk_row m) = Some 1" and "mk_row m \<in> set (polymarket_markets d)"
    using select_markets_active_only [of r d cat limit] by simp_all
next
  fix l :: "'a listing" and m :: "'a market"
  assume res: "get_polymarket_markets loads empty_list empty_object d clk x_api_key limit cat True = Inr l"
    and m: "m \<in> set (markets l)"
  from res have "markets l =
      map (to_market loads empty_list empty_object) (select_markets d True cat (min limit 100))"
    by (auto simp: get_polymarket_markets_def Let_def split: sum.splits)
  with m obtain r where "r \<in> set (select_markets d True cat (min limit 100))" and "mk_row m = r"
    by (auto simp: to_market_def)
  then show "active (mk_row m) = Some 1" and "mk_row m \<in> set (polymarket_markets d)"
    using select_markets_active_only [of r d cat "min limit 100"] by simp_all
qed

lemma markets_db_tables:
  "api_keys markets_db = [demo_key, revoked_key]" "api_usage_log markets_db = []"
  "polymarket_markets markets_db =
     [market ''m1'' 100 1 (Some ''[1, 2]''), market ''m2'' 900 0 None, market ''m3'' 500 1 (Some ''bad'')]"
  by (simp_all add: markets_db_def demo_db_tables)

lemma markets_db_selected:
  "select_markets markets_db True None 50 =
     [market ''m3'' 500 1 (Some ''bad''), market ''m1'' 100 1 (Some ''[1, 2]'')]"
  by (simp add: select_markets_def markets_db_tables market_def sql_limit_def Let_def)

theorem active_only_lists_only_active_witness:
  "map market_id (filter (\<lambda>r. active r \<noteq> Some 1) (polymarket_markets markets_db)) = [''m2'']
   \<and> map (\<lambda>m. market_id (mk_row m))
         (markets (get_markets demo_loads ''[]'' ''{}'' markets_db 50 None True)) = [''m3'', ''m1'']
   \<and> list_all (\<lambda>m. active (mk_row m) = Some 1)
         (markets (get_markets demo_loads ''[]'' ''{}'' markets_db 50 None True))
   \<and> (\<exists>l. get_polymarket_markets demo_loads ''[]'' ''{}'' markets_db utc_host
             (Some ''demo-free-key'') 50 None True = Inr l
          \<and> listing_count l = 2
          \<and> list_all (\<lambda>m. active (mk_row m) = Some 1) (markets l))"
proof -
  let ?l1 = "get_markets demo_loads ''[]'' ''{}'' markets_db 50 None True"
  let ?rows = "[market ''m3'' 500 1 (Some ''bad''), market ''m1'' 100 1 (Some ''[1, 2]'')]"
  let ?l2 = "\<lparr>markets = map (to_market demo_loads ''[]'' ''{}'') ?rows, listing_count = 2\<rparr>"
  note th = active_only_lists_only_active
    [of demo_loads "''[]''" "''{}''" markets_db 50 None utc_host "Some ''demo-free-key''"]
  have closed: "map market_id (filter (\<lambda>r. active r \<noteq> Some 1) (polymarket_markets markets_db)) = [''m2'']"
    by (simp add: markets_db_tables market_def)
  have ids: "map (\<lambda>m. market_id (mk_row m)) (markets ?l1) = [''m3'', ''m1'']"
    by (simp add: get_markets_def markets_db_selected to_market_def market_def Let_def)
  have auth: "get_auth markets_db utc_host (Some ''demo-free-key'') =
     Inr \<lparr>ki_tier = ''free'', ki_name = Some ''demo@example.com'', ki_daily_limit = Some 2\<rparr>"
    by (simp add: get_auth_def get_key_info_def check_rate_limit_def usage_count_def
        markets_db_tables demo_key_def)
  have res: "get_polymarket_markets demo_loads ''[]'' ''{}'' markets_db utc_host
               (Some ''demo-free-key'') 50 None True = Inr ?l2"
    by (simp add: get_polymarket_markets_def auth markets_db_selected Let_def)
  from th have all1: "list_all (\<lambda>m. active (mk_row m) = Some 1) (markets ?l1)"
    by (simp add: list_all_iff)
  from th res have all2: "list_all (\<lambda>m. active (mk_row m) = Some 1) (markets ?l2)"
    unfolding list_all_iff by blast
  have "listing_count ?l2 = 2"
    by simp
  with res all2 have "\<exists>l. get_polymarket_markets demo_loads ''[]'' ''{}'' markets_db utc_host
             (Some ''demo-free-key'') 50 None True = Inr l
          \<and> listing_count l = 2
          \<and> list_all (\<lambda>m. active (mk_row m) = Some 1) (markets l)"
    by blast
  with closed ids all1 show ?thesis
    by blast
qed

end
